theory Spec2Isabelle
  imports Complex_Main
begin

section \<open>JavaScript values used by the editing session\<close>

text \<open>
  The program is one TypeScript module, \<^verbatim>\<open>src/index.tsx\<close>, whose state is a set of
  module-level variables and DOM widgets. Numbers are JavaScript numbers. A finite number
  is modelled by the rational it denotes and \<^verbatim>\<open>NaN\<close> by \<open>None\<close>; rounding of binary
  floating point and the infinities are outside the model. A slider's \<^verbatim>\<open>value\<close> is the
  number its string parses to (\<^verbatim>\<open>parseFloat\<close>), as the handlers read it; the model stores
  what a handler writes and applies no further adjustment of the widget.
\<close>

type_synonym jsnum = "rat option"

definition js_lt :: "jsnum \<Rightarrow> jsnum \<Rightarrow> bool" where
  "js_lt a b = (case a of None \<Rightarrow> False | Some x \<Rightarrow> (case b of None \<Rightarrow> False | Some y \<Rightarrow> x < y))"

definition js_le :: "jsnum \<Rightarrow> jsnum \<Rightarrow> bool" where
  "js_le a b = (case a of None \<Rightarrow> False | Some x \<Rightarrow> (case b of None \<Rightarrow> False | Some y \<Rightarrow> x \<le> y))"

definition js_gt :: "jsnum \<Rightarrow> jsnum \<Rightarrow> bool" where
  "js_gt a b = js_lt b a"

definition js_ge :: "jsnum \<Rightarrow> jsnum \<Rightarrow> bool" where
  "js_ge a b = js_le b a"

definition js_min :: "jsnum \<Rightarrow> jsnum \<Rightarrow> jsnum" where
  "js_min a b = (case a of None \<Rightarrow> None | Some x \<Rightarrow> (case b of None \<Rightarrow> None | Some y \<Rightarrow> Some (min x y)))"

definition js_max :: "jsnum \<Rightarrow> jsnum \<Rightarrow> jsnum" where
  "js_max a b = (case a of None \<Rightarrow> None | Some x \<Rightarrow> (case b of None \<Rightarrow> None | Some y \<Rightarrow> Some (max x y)))"

definition js_add :: "jsnum \<Rightarrow> jsnum \<Rightarrow> jsnum" where
  "js_add a b = (case a of None \<Rightarrow> None | Some x \<Rightarrow> (case b of None \<Rightarrow> None | Some y \<Rightarrow> Some (x + y)))"

definition js_sub :: "jsnum \<Rightarrow> jsnum \<Rightarrow> jsnum" where
  "js_sub a b = (case a of None \<Rightarrow> None | Some x \<Rightarrow> (case b of None \<Rightarrow> None | Some y \<Rightarrow> Some (x - y)))"

text \<open>
  \<^verbatim>\<open>x.toFixed(1)\<close>: the decimal with one fractional digit nearest to \<open>x\<close>, the larger one
  on a tie, computed on the magnitude with the sign put back. \<open>tenths\<close> is that decimal
  in units of one tenth.
\<close>

definition tenths :: "rat \<Rightarrow> int" where
  "tenths x = \<lfloor>x * 10 + 1 / 2\<rfloor>"

definition round1 :: "rat \<Rightarrow> rat" where
  "round1 x = (if x < 0 then - (of_int (tenths (- x)) / 10) else of_int (tenths x) / 10)"

text \<open>\<^verbatim>\<open>parseFloat(x.toFixed(1))\<close>, the value a slider holds after \<^verbatim>\<open>slider.value = x.toFixed(1)\<close>.\<close>

definition toFixed1 :: "jsnum \<Rightarrow> jsnum" where
  "toFixed1 v = map_option round1 v"

definition digit_char :: "nat \<Rightarrow> char" where
  "digit_char d = ''0123456789'' ! d"

fun string_of_nat :: "nat \<Rightarrow> string" where
  "string_of_nat n = (if n < 10 then [digit_char n]
     else string_of_nat (n div 10) @ [digit_char (n mod 10)])"

declare string_of_nat.simps [simp del]

text \<open>The string \<^verbatim>\<open>x.toFixed(1)\<close> itself, as it appears inside a reply.\<close>

definition toFixed1_string :: "jsnum \<Rightarrow> string" where
  "toFixed1_string v = (case v of None \<Rightarrow> ''NaN''
     | Some x \<Rightarrow>
         (let t = nat (tenths \<bar>x\<bar>)
          in (if x < 0 \<and> 0 < t then ''-'' else '''')
               @ string_of_nat (t div 10) @ ''.'' @ [digit_char (t mod 10)]))"

section \<open>Exceptions and completions\<close>

text \<open>
  A statement sequence ends normally, by \<^verbatim>\<open>return\<close>, or by a thrown exception; each
  outcome carries the state reached. For an \<^verbatim>\<open>async\<close> function \<open>Thrown\<close> is a rejected
  promise. \<open>try_catch_finally\<close> is JavaScript's \<^verbatim>\<open>try { } catch { } finally { }\<close>: the
  handler runs on a throw of the body, and the finaliser runs on every way out.
\<close>

datatype exn = Error string | EngineError | TypeError

datatype 's completion = Normal 's | Returned 's | Thrown exn 's

definition state_of :: "'s completion \<Rightarrow> 's" where
  "state_of c = (case c of Normal s \<Rightarrow> s | Returned s \<Rightarrow> s | Thrown e s \<Rightarrow> s)"

definition and_then :: "'s completion \<Rightarrow> ('s \<Rightarrow> 's completion) \<Rightarrow> 's completion" where
  "and_then c f = (case c of Normal s \<Rightarrow> f s | Returned s \<Rightarrow> Returned s | Thrown e s \<Rightarrow> Thrown e s)"

definition try_catch_finally ::
  "'s completion \<Rightarrow> (exn \<Rightarrow> 's \<Rightarrow> 's completion) \<Rightarrow> ('s \<Rightarrow> 's completion) \<Rightarrow> 's completion" where
  "try_catch_finally body handler fin =
     (case (case body of Thrown e s \<Rightarrow> handler e s | Normal s \<Rightarrow> Normal s | Returned s \<Rightarrow> Returned s) of
        Normal s \<Rightarrow> fin s
      | Returned s \<Rightarrow> (case fin s of Normal s' \<Rightarrow> Returned s' | Returned s' \<Rightarrow> Returned s' | Thrown e s' \<Rightarrow> Thrown e s')
      | Thrown e s \<Rightarrow> (case fin s of Normal s' \<Rightarrow> Thrown e s' | Returned s' \<Rightarrow> Returned s' | Thrown e' s' \<Rightarrow> Thrown e' s'))"

text \<open>
  \<^verbatim>\<open>button.click()\<close> runs the button's click listener, unless the button is disabled: the
  \<^verbatim>\<open>click()\<close> method of a disabled form control does nothing.
\<close>

definition button_click :: "bool \<Rightarrow> ('s \<Rightarrow> 's) \<Rightarrow> 's \<Rightarrow> 's" where
  "button_click disabled listener s = (if disabled then s else listener s)"

text \<open>
  Assigning \<^verbatim>\<open>select.value = v\<close> selects the option whose value is \<open>v\<close>; with no such
  option nothing is selected and the value reads as the empty string.
\<close>

definition select_assign :: "string list \<Rightarrow> string \<Rightarrow> string" where
  "select_assign options v = (if v \<in> set options then v else '''')"

section \<open>The media transform engine and the session state\<close>

text \<open>
  The FFmpeg instance is an external collaborator. Its state (the virtual file system) has
  an abstract type \<open>'fs\<close>, and each of its asynchronous calls either yields the next
  engine state or rejects (\<open>None\<close>). A video payload has the abstract type \<open>'b\<close>. Command
  tokens are strings; a token that the code builds from a number keeps the number.
\<close>

datatype 'b fdata = Bin 'b | Txt string

datatype arg = Lit string | Num jsnum | Tmpl string jsnum string

record ('fs, 'b) engine =
  fresh :: 'fs
  load :: "'fs \<Rightarrow> 'fs option"
  writeFile :: "'fs \<Rightarrow> string \<Rightarrow> 'b fdata \<Rightarrow> 'fs option"
  exec :: "'fs \<Rightarrow> arg list \<Rightarrow> 'fs option"
  readFile :: "'fs \<Rightarrow> string \<Rightarrow> 'b option"

record 'b clip =
  clip_id :: "nat option"
  clip_name :: string
  blob :: 'b
  thumbnail :: string

text \<open>
  The module-level variables and the widget properties the handlers read back.
  \<open>video_src\<close> is \<^verbatim>\<open>video.src\<close>: empty (\<open>None\<close>) or an object URL of a payload.
  \<open>video_duration\<close> is \<^verbatim>\<open>video.duration\<close>: \<^verbatim>\<open>NaN\<close> from the assignment of a new source
  until the browser has read the metadata and fires \<^verbatim>\<open>loadedmetadata\<close>.
  \<open>trimStart\<close> and \<open>trimEnd\<close> are the values of the two sliders, \<open>trimEndMax\<close> is
  \<^verbatim>\<open>trimEndSlider.max\<close>. The three editor buttons (apply trim, cancel, apply effect) are
  disabled and enabled together in every place, so one flag stands for the three.
  \<open>effectsSelect_options\<close> are the option values of the effects drop-down, which the
  page declares. \<open>metaListeners\<close> counts the one-shot \<^verbatim>\<open>loadedmetadata\<close> listeners that are registered.
  Writes that only repaint (display styles, the numeric boxes mirrored by
  \<^verbatim>\<open>updateTrimUI\<close>, \<^verbatim>\<open>video.currentTime\<close>) are left out. A source is identified
  with its payload, so creating and revoking object URLs leaves no trace. Handlers run
  one at a time, each to its end: the interleaving of two asynchronous handlers is not
  modelled.
\<close>

record ('fs, 'b) session =
  prompt :: string
  aspectRatio :: string
  duration :: jsnum
  resolution :: string
  status :: string
  generateControls_disabled :: bool
  video_src :: "'b option"
  video_duration :: jsnum
  ffmpeg :: "'fs option"
  isEditorOpen :: bool
  trimStart :: jsnum
  trimEnd :: jsnum
  trimEndMax :: jsnum
  effectsSelect :: string
  effectsSelect_options :: "string list"
  editorButtons_disabled :: bool
  metaListeners :: nat
  mergeBin :: "'b clip list"
  mergeVideosButton_disabled :: bool

subsection \<open>Engine calls made on the session's FFmpeg instance\<close>

definition ffmpeg_writeFile ::
  "('fs, 'b) engine \<Rightarrow> string \<Rightarrow> 'b fdata \<Rightarrow> ('fs, 'b) session \<Rightarrow> ('fs, 'b) session completion" where
  "ffmpeg_writeFile eng file_name d s =
     (case ffmpeg s of None \<Rightarrow> Thrown TypeError s
      | Some fs \<Rightarrow> (case writeFile eng fs file_name d of None \<Rightarrow> Thrown EngineError s
                    | Some fs' \<Rightarrow> Normal (s\<lparr>ffmpeg := Some fs'\<rparr>)))"

definition ffmpeg_exec ::
  "('fs, 'b) engine \<Rightarrow> arg list \<Rightarrow> ('fs, 'b) session \<Rightarrow> ('fs, 'b) session completion" where
  "ffmpeg_exec eng cmd s =
     (case ffmpeg s of None \<Rightarrow> Thrown TypeError s
      | Some fs \<Rightarrow> (case exec eng fs cmd of None \<Rightarrow> Thrown EngineError s
                    | Some fs' \<Rightarrow> Normal (s\<lparr>ffmpeg := Some fs'\<rparr>)))"

definition ffmpeg_readFile ::
  "('fs, 'b) engine \<Rightarrow> string \<Rightarrow> ('b \<Rightarrow> ('fs, 'b) session \<Rightarrow> ('fs, 'b) session completion)
     \<Rightarrow> ('fs, 'b) session \<Rightarrow> ('fs, 'b) session completion" where
  "ffmpeg_readFile eng file_name k s =
     (case ffmpeg s of None \<Rightarrow> Thrown TypeError s
      | Some fs \<Rightarrow> (case readFile eng fs file_name of None \<Rightarrow> Thrown EngineError s
                    | Some d \<Rightarrow> k d s))"

text \<open>
  \<^verbatim>\<open>video.src = newUrl\<close>, the new URL being an object URL of the payload just read: the
  browser starts loading it and the duration is unknown until the metadata arrives.
\<close>

definition set_video_src :: "'b \<Rightarrow> ('fs, 'b) session \<Rightarrow> ('fs, 'b) session" where
  "set_video_src b s = s\<lparr>video_src := Some b, video_duration := None\<rparr>"

section \<open>The editor\<close>

definition loadFFmpeg :: "('fs, 'b) engine \<Rightarrow> ('fs, 'b) session \<Rightarrow> ('fs, 'b) session completion" where
  "loadFFmpeg eng s =
     (case ffmpeg s of Some fs \<Rightarrow> Returned s
      | None \<Rightarrow>
          (let s1 = s\<lparr>status := ''Loading video editor...'', ffmpeg := Some (fresh eng)\<rparr>
           in case load eng (fresh eng) of None \<Rightarrow> Thrown EngineError s1
              | Some fs' \<Rightarrow> Normal (s1\<lparr>ffmpeg := Some fs', status := ''Editor loaded.''\<rparr>)))"

text \<open>The click listener of the edit button: the range becomes the whole video.\<close>

definition editButton_onclick :: "('fs, 'b) engine \<Rightarrow> ('fs, 'b) session \<Rightarrow> ('fs, 'b) session completion" where
  "editButton_onclick eng s =
     (case loadFFmpeg eng s of Thrown e s' \<Rightarrow> Thrown e s'
      | Normal s' \<Rightarrow> Normal (s'\<lparr>isEditorOpen := True, trimEndMax := video_duration s',
                                  trimStart := Some 0, trimEnd := video_duration s'\<rparr>)
      | Returned s' \<Rightarrow> Normal (s'\<lparr>isEditorOpen := True, trimEndMax := video_duration s',
                                    trimStart := Some 0, trimEnd := video_duration s'\<rparr>))"

definition cancelTrimButton_onclick :: "('fs, 'b) session \<Rightarrow> ('fs, 'b) session" where
  "cancelTrimButton_onclick s =
     s\<lparr>isEditorOpen := False, effectsSelect := select_assign (effectsSelect_options s) ''none''\<rparr>"

subsection \<open>The four mutations of the trim range\<close>

text \<open>
  An \<^verbatim>\<open>input\<close> event of a slider arrives with the slider already at the value \<open>v\<close> the
  user dragged it to; a \<^verbatim>\<open>change\<close> event of a numeric box arrives with the number \<open>v\<close>
  typed into it.
\<close>

definition trimStartSlider_oninput :: "jsnum \<Rightarrow> ('fs, 'b) session \<Rightarrow> ('fs, 'b) session" where
  "trimStartSlider_oninput v s =
     (let startValue = v; endValue = trimEnd s
      in if js_ge startValue endValue
         then s\<lparr>trimStart := toFixed1 (js_max (Some 0) (js_sub endValue (Some (1 / 10))))\<rparr>
         else s\<lparr>trimStart := v\<rparr>)"

definition trimEndSlider_oninput :: "jsnum \<Rightarrow> ('fs, 'b) session \<Rightarrow> ('fs, 'b) session" where
  "trimEndSlider_oninput v s =
     (let startValue = trimStart s; endValue = v
      in if js_le endValue startValue
         then s\<lparr>trimEnd := toFixed1 (js_min (trimEndMax s) (js_add startValue (Some (1 / 10))))\<rparr>
         else s\<lparr>trimEnd := v\<rparr>)"

definition trimStartTimeInput_onchange :: "jsnum \<Rightarrow> ('fs, 'b) session \<Rightarrow> ('fs, 'b) session" where
  "trimStartTimeInput_onchange v s =
     (let endValue = trimEnd s; maxDuration = video_duration s;
          startValue = js_max (Some 0) (js_min v maxDuration)
      in s\<lparr>trimStart := (if js_ge startValue endValue
                           then js_max (Some 0) (js_sub endValue (Some (1 / 10)))
                           else startValue)\<rparr>)"

definition trimEndTimeInput_onchange :: "jsnum \<Rightarrow> ('fs, 'b) session \<Rightarrow> ('fs, 'b) session" where
  "trimEndTimeInput_onchange v s =
     (let startValue = trimStart s; maxDuration = video_duration s;
          endValue = js_max (Some 0) (js_min v maxDuration)
      in s\<lparr>trimEnd := (if js_le endValue startValue
                         then js_min maxDuration (js_add startValue (Some (1 / 10)))
                         else endValue)\<rparr>)"

datatype trim_event = StartSlider jsnum | EndSlider jsnum | StartInput jsnum | EndInput jsnum

fun trim_step :: "('fs, 'b) session \<Rightarrow> trim_event \<Rightarrow> ('fs, 'b) session" where
  "trim_step s (StartSlider v) = trimStartSlider_oninput v s"
| "trim_step s (EndSlider v) = trimEndSlider_oninput v s"
| "trim_step s (StartInput v) = trimStartTimeInput_onchange v s"
| "trim_step s (EndInput v) = trimEndTimeInput_onchange v s"

subsection \<open>applyTrim\<close>

definition trim_command :: "jsnum \<Rightarrow> jsnum \<Rightarrow> arg list" where
  "trim_command startTime endTime =
     [Lit ''-i'', Lit ''input.mp4'', Lit ''-ss'', Num startTime, Lit ''-to'', Num endTime,
      Lit ''-c'', Lit ''copy'', Lit ''output.mp4'']"

text \<open>
  The body of the \<^verbatim>\<open>try\<close> block. Its last statement is \<^verbatim>\<open>cancelTrimButton.click()\<close>,
  commented "Close the editor" in the source; the button is one of those the function
  disabled before the block.
\<close>

definition applyTrim_body ::
  "('fs, 'b) engine \<Rightarrow> 'b \<Rightarrow> ('fs, 'b) session \<Rightarrow> ('fs, 'b) session completion" where
  "applyTrim_body eng b s0 =
     and_then (ffmpeg_writeFile eng ''input.mp4'' (Bin b) s0) (\<lambda>s1.
     and_then (ffmpeg_exec eng (trim_command (trimStart s1) (trimEnd s1)) s1) (\<lambda>s2.
     ffmpeg_readFile eng ''output.mp4'' (\<lambda>newBlob s3.
       (let s4 = (set_video_src newBlob s3)\<lparr>status := ''Trim successful!''\<rparr>
        in Normal (button_click (editorButtons_disabled s4) cancelTrimButton_onclick s4))) s2))"

definition applyTrim :: "('fs, 'b) engine \<Rightarrow> ('fs, 'b) session \<Rightarrow> ('fs, 'b) session completion" where
  "applyTrim eng s =
     (case ffmpeg s of None \<Rightarrow> Returned s
      | Some fs \<Rightarrow>
          (case video_src s of None \<Rightarrow> Returned s
           | Some b \<Rightarrow>
               try_catch_finally
                 (applyTrim_body eng b
                    (s\<lparr>status := ''Trimming video... Please wait.'', editorButtons_disabled := True\<rparr>))
                 (\<lambda>e s'. Normal (s'\<lparr>status := ''An error occurred during trimming.''\<rparr>))
                 (\<lambda>s'. Normal (s'\<lparr>editorButtons_disabled := False\<rparr>))))"

subsection \<open>handleApplyEffect\<close>

text \<open>
  The \<^verbatim>\<open>switch\<close> over the selected effect chooses a filter expression, or finds a fade
  asked of a clip shorter than two seconds (or of unknown duration), or an unknown name.
  On a filter the function goes on; on the short clip it reports, re-enables the buttons
  and returns; on an unknown name it throws.
\<close>

datatype effect_choice = Filter arg | TooShort | UnknownEffect

definition choose_effect :: "string \<Rightarrow> jsnum \<Rightarrow> effect_choice" where
  "choose_effect effect d =
     (if effect = ''grayscale'' then Filter (Lit ''format=gray'')
      else if effect = ''sepia'' then
        Filter (Lit ''colorchannelmixer=.393:.769:.189:0:.349:.686:.168:0:.272:.534:.131'')
      else if effect = ''vignette'' then Filter (Lit ''vignette=PI/5'')
      else if effect = ''fade'' then
        (if d = None \<or> js_lt d (Some 2) then TooShort
         else Filter (Tmpl ''fade=t=in:st=0:d=1,fade=t=out:st='' (js_sub d (Some 1)) '':d=1''))
      else if effect = ''slowmo'' then Filter (Lit ''setpts=2.0*PTS'')
      else if effect = ''fastforward'' then Filter (Lit ''setpts=0.5*PTS'')
      else UnknownEffect)"

definition effect_switch ::
  "string \<Rightarrow> (arg \<Rightarrow> ('fs, 'b) session \<Rightarrow> ('fs, 'b) session completion)
     \<Rightarrow> ('fs, 'b) session \<Rightarrow> ('fs, 'b) session completion" where
  "effect_switch effect k s =
     (case choose_effect effect (video_duration s) of
        Filter flt \<Rightarrow> k flt s
      | TooShort \<Rightarrow>
          Returned (s\<lparr>status := ''Video is too short for a fade effect.'',
                      editorButtons_disabled := False\<rparr>)
      | UnknownEffect \<Rightarrow> Thrown (Error ''Unknown effect selected'') s)"

definition effect_command :: "arg \<Rightarrow> arg list" where
  "effect_command flt = [Lit ''-i'', Lit ''input.mp4'', Lit ''-vf'', flt, Lit ''output.mp4'']"

text \<open>The statements after the \<^verbatim>\<open>switch\<close>: run the command, read the output, install it.\<close>

definition effect_finish ::
  "('fs, 'b) engine \<Rightarrow> arg \<Rightarrow> ('fs, 'b) session \<Rightarrow> ('fs, 'b) session completion" where
  "effect_finish eng flt s2 =
     and_then (ffmpeg_exec eng (effect_command flt) s2) (\<lambda>s3.
     ffmpeg_readFile eng ''output.mp4'' (\<lambda>newBlob s4.
       Normal ((set_video_src newBlob s4)
                 \<lparr>metaListeners := Suc (metaListeners s4),
                  status := ''Effect applied successfully!'',
                  effectsSelect := select_assign (effectsSelect_options s4) ''none''\<rparr>)) s3)"

definition handleApplyEffect_body ::
  "('fs, 'b) engine \<Rightarrow> 'b \<Rightarrow> string \<Rightarrow> ('fs, 'b) session \<Rightarrow> ('fs, 'b) session completion" where
  "handleApplyEffect_body eng b effect s0 =
     and_then (ffmpeg_writeFile eng ''input.mp4'' (Bin b) s0)
       (effect_switch effect (effect_finish eng))"

definition handleApplyEffect :: "('fs, 'b) engine \<Rightarrow> ('fs, 'b) session \<Rightarrow> ('fs, 'b) session completion" where
  "handleApplyEffect eng s =
     (case ffmpeg s of None \<Rightarrow> Returned s
      | Some fs \<Rightarrow>
          (case video_src s of None \<Rightarrow> Returned s
           | Some b \<Rightarrow>
               (let effect = effectsSelect s
                in if effect = ''none'' then Returned s
                   else try_catch_finally
                     (handleApplyEffect_body eng b effect
                        (s\<lparr>status := ''Applying '' @ effect @ '' effect... Please wait.'',
                          editorButtons_disabled := True\<rparr>))
                     (\<lambda>e s'. Normal (s'\<lparr>status := ''An error occurred while applying the effect.''\<rparr>))
                     (\<lambda>s'. Normal (s'\<lparr>editorButtons_disabled := False\<rparr>)))))"

text \<open>
  The browser's \<^verbatim>\<open>loadedmetadata\<close> event for the current source, with the duration \<open>d\<close>
  it has read: every one-shot listener registered by \<open>handleApplyEffect\<close> runs once and
  resets the trim range to the whole of the new video.
\<close>

definition reset_trim_range :: "('fs, 'b) session \<Rightarrow> ('fs, 'b) session" where
  "reset_trim_range s =
     s\<lparr>trimEndMax := video_duration s, trimStart := Some 0, trimEnd := video_duration s\<rparr>"

definition video_onloadedmetadata :: "jsnum \<Rightarrow> ('fs, 'b) session \<Rightarrow> ('fs, 'b) session" where
  "video_onloadedmetadata d s =
     ((reset_trim_range ^^ metaListeners s) (s\<lparr>video_duration := d\<rparr>))\<lparr>metaListeners := 0\<rparr>"

section \<open>The merge bin\<close>

definition renderMergeBin :: "('fs, 'b) session \<Rightarrow> ('fs, 'b) session" where
  "renderMergeBin s = s\<lparr>mergeVideosButton_disabled := (length (mergeBin s) < 2)\<rparr>"

definition addToMergeBin :: "'b clip \<Rightarrow> ('fs, 'b) session \<Rightarrow> ('fs, 'b) session" where
  "addToMergeBin c s = renderMergeBin (s\<lparr>mergeBin := mergeBin s @ [c]\<rparr>)"

definition clearMergeBinButton_onclick :: "('fs, 'b) session \<Rightarrow> ('fs, 'b) session" where
  "clearMergeBinButton_onclick s = renderMergeBin (s\<lparr>mergeBin := []\<rparr>)"

definition input_name :: "nat \<Rightarrow> string" where
  "input_name i = ''input'' @ string_of_nat i @ ''.mp4''"

text \<open>One line of the list file: \<^verbatim>\<open>file '<name>'\<close> and a line feed.\<close>

definition list_line :: "nat \<Rightarrow> string" where
  "list_line i = ''file '' @ [CHR 0x27] @ input_name i @ [CHR 0x27, CHR 0x0A]"

text \<open>
  The \<^verbatim>\<open>for\<close> loop of the merge handler over the indices of the bin, from \<open>i\<close>: it
  writes clip \<open>i\<close> as \<^verbatim>\<open>input<i>.mp4\<close> and appends its line to the list file's content.
  The bin is the one read when the handler starts.
\<close>

function merge_write_inputs ::
  "('fs, 'b) engine \<Rightarrow> 'b clip list \<Rightarrow> nat \<Rightarrow> string \<Rightarrow> ('fs, 'b) session
     \<Rightarrow> (string \<times> ('fs, 'b) session) completion" where
  "merge_write_inputs eng bin i fileListContent s =
     (if i < length bin then
        (case ffmpeg_writeFile eng (input_name i) (Bin (blob (bin ! i))) s of
           Normal s' \<Rightarrow> merge_write_inputs eng bin (Suc i) (fileListContent @ list_line i) s'
         | Returned s' \<Rightarrow> Returned (fileListContent, s')
         | Thrown e s' \<Rightarrow> Thrown e (fileListContent, s'))
      else Normal (fileListContent, s))"
  by pat_completeness auto
termination
  by (relation "measure (\<lambda>(eng, bin, i, c, s). length bin - i)") auto

declare merge_write_inputs.simps [simp del]

definition concat_command :: "arg list" where
  "concat_command =
     [Lit ''-f'', Lit ''concat'', Lit ''-safe'', Lit ''0'', Lit ''-i'', Lit ''mylist.txt'',
      Lit ''-c'', Lit ''copy'', Lit ''output.mp4'']"

definition merge_body :: "('fs, 'b) engine \<Rightarrow> ('fs, 'b) session \<Rightarrow> ('fs, 'b) session completion" where
  "merge_body eng s0 =
     (case merge_write_inputs eng (mergeBin s0) 0 [] s0 of
        Thrown e (c, s') \<Rightarrow> Thrown e s'
      | Returned (c, s') \<Rightarrow> Returned s'
      | Normal (fileListContent, s1) \<Rightarrow>
          and_then (ffmpeg_writeFile eng ''mylist.txt'' (Txt fileListContent) s1) (\<lambda>s2.
          and_then (ffmpeg_exec eng concat_command s2) (\<lambda>s3.
          ffmpeg_readFile eng ''output.mp4'' (\<lambda>newBlob s4.
            Normal (renderMergeBin
              ((set_video_src newBlob s4)\<lparr>status := ''Merge successful!'', mergeBin := []\<rparr>))) s3)))"

definition mergeVideosButton_onclick ::
  "('fs, 'b) engine \<Rightarrow> ('fs, 'b) session \<Rightarrow> ('fs, 'b) session completion" where
  "mergeVideosButton_onclick eng s =
     (if length (mergeBin s) < 2 \<or> ffmpeg s = None
      then Returned (s\<lparr>status := ''Add at least 2 videos to merge.''\<rparr>)
      else try_catch_finally
             (merge_body eng
                (s\<lparr>status := ''Merging videos... This may take a moment.'',
                  mergeVideosButton_disabled := True\<rparr>))
             (\<lambda>e s'. Normal (s'\<lparr>status := ''An error occurred during merging.''\<rparr>))
             (\<lambda>s'. Normal (s'\<lparr>mergeVideosButton_disabled := False\<rparr>)))"

section \<open>The command dispatcher\<close>

text \<open>
  The entries of the \<^verbatim>\<open>tools\<close> table, each with the arguments its declaration gives it.
  A tool returns its reply, or raises to its caller when an awaited call rejects.
  \<^verbatim>\<open>setDuration\<close> prints its number with JavaScript's number-to-string conversion, which
  is a parameter here. \<^verbatim>\<open>clickGenerate\<close> starts \<^verbatim>\<open>generate()\<close> and does not wait for it:
  only the part of \<^verbatim>\<open>generate()\<close> that runs before its first suspension belongs to the
  call, and \<open>recorded\<close> tells whether a recorded clip is pending as conditioning input.
\<close>

datatype tool_result = Reply string | Raised exn

datatype quality = Standard | High

definition quality_string :: "quality \<Rightarrow> string" where
  "quality_string q = (case q of Standard \<Rightarrow> ''standard'' | High \<Rightarrow> ''high'')"

definition qualityMap :: "quality \<Rightarrow> string" where
  "qualityMap q = (case q of Standard \<Rightarrow> ''720p'' | High \<Rightarrow> ''1080p'')"

definition setPrompt :: "string \<Rightarrow> ('fs, 'b) session \<Rightarrow> tool_result \<times> ('fs, 'b) session" where
  "setPrompt newPrompt s =
     (Reply (''Prompt set to: '' @ [CHR 0x22] @ newPrompt @ [CHR 0x22]), s\<lparr>prompt := newPrompt\<rparr>)"

definition setAspectRatio :: "string \<Rightarrow> ('fs, 'b) session \<Rightarrow> tool_result \<times> ('fs, 'b) session" where
  "setAspectRatio newAspectRatio s =
     (Reply (''Aspect ratio set to: '' @ newAspectRatio), s\<lparr>aspectRatio := newAspectRatio\<rparr>)"

definition setDuration ::
  "(jsnum \<Rightarrow> string) \<Rightarrow> jsnum \<Rightarrow> ('fs, 'b) session \<Rightarrow> tool_result \<times> ('fs, 'b) session" where
  "setDuration number_string newDuration s =
     (Reply (''Duration set to: '' @ number_string newDuration @ '' seconds''),
      s\<lparr>duration := newDuration\<rparr>)"

definition setQuality :: "quality \<Rightarrow> ('fs, 'b) session \<Rightarrow> tool_result \<times> ('fs, 'b) session" where
  "setQuality newQuality s =
     (let newResolution = qualityMap newQuality
      in (Reply (''Video quality set to: '' @ quality_string newQuality
                   @ '' ('' @ newResolution @ '')''),
          s\<lparr>resolution := newResolution\<rparr>))"

definition generate_start :: "bool \<Rightarrow> ('fs, 'b) session \<Rightarrow> ('fs, 'b) session" where
  "generate_start recorded s =
     s\<lparr>status := (if recorded then ''Processing recorded video frame...''
                   else ''Generating... This may take a few minutes.''),
       generateControls_disabled := True\<rparr>"

definition clickGenerate :: "bool \<Rightarrow> ('fs, 'b) session \<Rightarrow> tool_result \<times> ('fs, 'b) session" where
  "clickGenerate recorded s = (Reply ''Starting video generation...'', generate_start recorded s)"

text \<open>
  \<^verbatim>\<open>editButton.click()\<close> runs the asynchronous listener; a rejection of the listener is
  not seen by the caller of \<^verbatim>\<open>click()\<close>. The edit button is never disabled.
\<close>

definition openEditor ::
  "('fs, 'b) engine \<Rightarrow> ('fs, 'b) session \<Rightarrow> tool_result \<times> ('fs, 'b) session" where
  "openEditor eng s =
     (if video_src s = None
      then (Reply ''A video must be generated or loaded before you can open the editor.'', s)
      else if isEditorOpen s then (Reply ''The editor is already open.'', s)
      else (Reply ''Video editor opened.'', state_of (editButton_onclick eng s)))"

definition closeEditor :: "('fs, 'b) session \<Rightarrow> tool_result \<times> ('fs, 'b) session" where
  "closeEditor s =
     (if \<not> isEditorOpen s then (Reply ''The editor is already closed.'', s)
      else (Reply ''Video editor closed.'',
            button_click (editorButtons_disabled s) cancelTrimButton_onclick s))"

definition trimVideo ::
  "('fs, 'b) engine \<Rightarrow> jsnum \<Rightarrow> jsnum \<Rightarrow> ('fs, 'b) session \<Rightarrow> tool_result \<times> ('fs, 'b) session" where
  "trimVideo eng startTime endTime s =
     (if \<not> isEditorOpen s then (Reply ''Please open the editor first before trimming.'', s)
      else
        (let d = video_duration s
         in if d = None \<or> js_ge startTime endTime \<or> js_lt startTime (Some 0) \<or> js_gt endTime d
            then (Reply (''Invalid trim times. Start time must be less than end time and within the video bounds (0-''
                           @ toFixed1_string d @ ''s).''), s)
            else (case applyTrim eng (s\<lparr>trimStart := startTime, trimEnd := endTime\<rparr>) of
                    Thrown e s' \<Rightarrow> (Raised e, s')
                  | Normal s' \<Rightarrow> (Reply ''Video trimmed successfully.'', s')
                  | Returned s' \<Rightarrow> (Reply ''Video trimmed successfully.'', s'))))"

definition join :: "string \<Rightarrow> string list \<Rightarrow> string" where
  "join sep xs = (case xs of [] \<Rightarrow> [] | x # rest \<Rightarrow> foldl (\<lambda>acc y. acc @ sep @ y) x rest)"

definition validEffects :: "('fs, 'b) session \<Rightarrow> string list" where
  "validEffects s = filter (\<lambda>v. v \<noteq> ''none'') (effectsSelect_options s)"

definition applyEffect ::
  "('fs, 'b) engine \<Rightarrow> string \<Rightarrow> ('fs, 'b) session \<Rightarrow> tool_result \<times> ('fs, 'b) session" where
  "applyEffect eng effectName s =
     (if \<not> isEditorOpen s then (Reply ''Please open the editor first before applying effects.'', s)
      else if effectName \<notin> set (validEffects s)
      then (Reply (''Invalid effect. Please choose from: '' @ join '', '' (validEffects s) @ ''.''), s)
      else (case handleApplyEffect eng
                   (s\<lparr>effectsSelect := select_assign (effectsSelect_options s) effectName\<rparr>) of
              Thrown e s' \<Rightarrow> (Raised e, s')
            | Normal s' \<Rightarrow> (Reply (''Applied the '' @ effectName @ '' effect successfully.''), s')
            | Returned s' \<Rightarrow> (Reply (''Applied the '' @ effectName @ '' effect successfully.''), s')))"

datatype tool_call =
    SetPrompt string
  | SetAspectRatio string
  | SetDuration jsnum
  | SetQuality quality
  | ClickGenerate
  | OpenEditor
  | CloseEditor
  | TrimVideo jsnum jsnum
  | ApplyEffect string

fun dispatch ::
  "('fs, 'b) engine \<Rightarrow> (jsnum \<Rightarrow> string) \<Rightarrow> bool \<Rightarrow> tool_call \<Rightarrow> ('fs, 'b) session
     \<Rightarrow> tool_result \<times> ('fs, 'b) session" where
  "dispatch eng number_string recorded (SetPrompt p) s = setPrompt p s"
| "dispatch eng number_string recorded (SetAspectRatio a) s = setAspectRatio a s"
| "dispatch eng number_string recorded (SetDuration d) s = setDuration number_string d s"
| "dispatch eng number_string recorded (SetQuality q) s = setQuality q s"
| "dispatch eng number_string recorded ClickGenerate s = clickGenerate recorded s"
| "dispatch eng number_string recorded OpenEditor s = openEditor eng s"
| "dispatch eng number_string recorded CloseEditor s = closeEditor s"
| "dispatch eng number_string recorded (TrimVideo a b) s = trimVideo eng a b s"
| "dispatch eng number_string recorded (ApplyEffect n) s = applyEffect eng n s"

section \<open>Completion of a generation job\<close>

text \<open>
  \<^verbatim>\<open>generateContent\<close> after its polling loop has seen the operation done. \<open>videos\<close> is
  \<^verbatim>\<open>operation.response?.generatedVideos\<close> (\<open>None\<close> when undefined). With no video the
  function throws. Otherwise \<^verbatim>\<open>videos.forEach\<close> starts one asynchronous callback per
  video; each callback downloads its video and, when the download has arrived, assigns
  it to \<^verbatim>\<open>video.src\<close>. \<open>order\<close> lists the indices of the callbacks in the order in which
  their downloads arrive, and the session returned is the one reached when those have
  run. A download that fails ends its callback without an assignment.
\<close>

record gvideo =
  uri :: string

definition load_generated ::
  "(string \<Rightarrow> 'b option) \<Rightarrow> gvideo list \<Rightarrow> ('fs, 'b) session \<Rightarrow> nat \<Rightarrow> ('fs, 'b) session" where
  "load_generated fetch videos s i =
     (if i < length videos
      then (case fetch (uri (videos ! i)) of None \<Rightarrow> s | Some b \<Rightarrow> set_video_src b s)
      else s)"

definition generateContent_completed ::
  "(string \<Rightarrow> 'b option) \<Rightarrow> gvideo list option \<Rightarrow> nat list \<Rightarrow> ('fs, 'b) session
     \<Rightarrow> ('fs, 'b) session completion" where
  "generateContent_completed fetch videos order s =
     (case videos of None \<Rightarrow> Thrown (Error ''No videos generated'') s
      | Some vs \<Rightarrow>
          if length vs = 0 then Thrown (Error ''No videos generated'') s
          else Normal (foldl (load_generated fetch vs) s order))"

section \<open>Recording\<close>

text \<open>
  The recording variables of the module: whether \<^verbatim>\<open>mediaRecorder\<close> and
  \<^verbatim>\<open>recordedVideoBlob\<close> are set, the flag \<^verbatim>\<open>isVideoRecording\<close>, whether
  \<^verbatim>\<open>recordingTimerInterval\<close> holds a running interval timer, the seconds counted, and
  whether the preview shows the warning of the nearing limit.
\<close>

record recording =
  mediaRecorder_present :: bool
  recordedVideoBlob_present :: bool
  isVideoRecording :: bool
  recordingTimerInterval :: bool
  recordingSeconds :: nat
  nearing_limit :: bool

definition MAX_RECORDING_DURATION :: nat where
  "MAX_RECORDING_DURATION = 30"

definition WARNING_START_TIME :: nat where
  "WARNING_START_TIME = 25"

definition initial_recording :: recording where
  "initial_recording =
     \<lparr>mediaRecorder_present = False, recordedVideoBlob_present = False, isVideoRecording = False,
      recordingTimerInterval = False, recordingSeconds = 0, nearing_limit = False\<rparr>"

definition stopRecording :: "recording \<Rightarrow> recording" where
  "stopRecording r =
     (if mediaRecorder_present r
      then r\<lparr>isVideoRecording := False, nearing_limit := False, recordingTimerInterval := False\<rparr>
      else r)"

text \<open>\<open>granted\<close>: whether \<^verbatim>\<open>getUserMedia\<close> resolved with a camera stream.\<close>

definition startRecording :: "bool \<Rightarrow> recording \<Rightarrow> recording" where
  "startRecording granted r =
     (if granted
      then r\<lparr>mediaRecorder_present := True, isVideoRecording := True, recordingSeconds := 0,
             recordingTimerInterval := True\<rparr>
      else r)"

text \<open>The callback of the one-second interval timer.\<close>

definition timer_callback :: "recording \<Rightarrow> recording" where
  "timer_callback r =
     (let r1 = r\<lparr>recordingSeconds := recordingSeconds r + 1\<rparr>;
          r2 = (if WARNING_START_TIME \<le> recordingSeconds r1
                   \<and> recordingSeconds r1 < MAX_RECORDING_DURATION
                then r1\<lparr>nearing_limit := True\<rparr> else r1)
      in if MAX_RECORDING_DURATION \<le> recordingSeconds r2 then stopRecording r2 else r2)"

definition recordButton_onclick :: "bool \<Rightarrow> recording \<Rightarrow> recording" where
  "recordButton_onclick granted r =
     (if isVideoRecording r then stopRecording r else startRecording granted r)"

text \<open>
  \<^verbatim>\<open>resetRecordingState\<close> forgets the recorded clip, hides the preview and its warning and
  clears the interval timer. It does not touch the recorder or \<^verbatim>\<open>isVideoRecording\<close>.
  The \<^verbatim>\<open>change\<close> listener of the image upload calls it when a file was chosen; the
  upload is not disabled while a recording runs.
\<close>

definition resetRecordingState :: "recording \<Rightarrow> recording" where
  "resetRecordingState r =
     r\<lparr>recordedVideoBlob_present := False, nearing_limit := False, recordingTimerInterval := False\<rparr>"

definition upload_onchange :: "bool \<Rightarrow> recording \<Rightarrow> recording" where
  "upload_onchange file_chosen r = (if file_chosen then resetRecordingState r else r)"

text \<open>The recorder's \<^verbatim>\<open>stop\<close> event, which follows a call of its \<^verbatim>\<open>stop()\<close>.\<close>

definition mediaRecorder_onstop :: "recording \<Rightarrow> recording" where
  "mediaRecorder_onstop r = r\<lparr>recordedVideoBlob_present := True\<rparr>"

datatype rec_event = RecordClick bool | TimerTick | UploadChange bool | RecorderStopped

text \<open>A tick is delivered only while the interval timer is set.\<close>

fun rec_step :: "recording \<Rightarrow> rec_event \<Rightarrow> recording" where
  "rec_step r (RecordClick granted) = recordButton_onclick granted r"
| "rec_step r TimerTick = (if recordingTimerInterval r then timer_callback r else r)"
| "rec_step r (UploadChange file_chosen) = upload_onchange file_chosen r"
| "rec_step r RecorderStopped = mediaRecorder_onstop r"

text \<open>
  The invariant of the recording state: while a recording is active or its timer is set,
  a recorder exists and fewer than the maximal number of seconds have been counted.
\<close>

definition recording_inv :: "recording \<Rightarrow> bool" where
  "recording_inv r =
     ((isVideoRecording r \<or> recordingTimerInterval r
         \<longrightarrow> mediaRecorder_present r \<and> recordingSeconds r < MAX_RECORDING_DURATION)
      \<and> recordingSeconds r \<le> MAX_RECORDING_DURATION)"

section \<open>The agent loop\<close>

text \<open>
  The language model is an external collaborator: \<open>send\<close> is \<^verbatim>\<open>chat.sendMessage\<close>, which
  takes the chat's state and a message and yields the next state and the response, or
  rejects. Of a response the loop reads its function-call parts, in order, and its text.
  The arguments of a call are an object of the abstract type \<open>'a\<close>, or undefined.
\<close>

record 'a response =
  functionCalls :: "(string \<times> 'a option) list"
  response_text :: string

datatype 'a tool_value = Str string | Obj 'a | EmptyObj | Boolean bool

datatype 'a message = UserText string | FunctionResponse string "'a tool_value"

datatype sender = User | Agent | Tool

record ('st, 'c) agent =
  session :: 'st
  chat :: 'c
  chatWindow :: "(sender \<times> string) list"
  roundTrips :: nat
  agentSendButton_disabled :: bool

definition addMessage :: "string \<Rightarrow> sender \<Rightarrow> ('st, 'c) agent \<Rightarrow> ('st, 'c) agent" where
  "addMessage txt who st = st\<lparr>chatWindow := chatWindow st @ [(who, txt)]\<rparr>"

text \<open>
  \<^verbatim>\<open>tools[name]\<close> is a property read on an object literal. It finds the nine entries of
  the table and, through the prototype of every object literal, the members of
  \<^verbatim>\<open>Object.prototype\<close>; for any other name it is undefined.
\<close>

definition tool_names :: "string list" where
  "tool_names =
     [''setPrompt'', ''setAspectRatio'', ''setDuration'', ''setQuality'', ''clickGenerate'',
      ''openEditor'', ''closeEditor'', ''trimVideo'', ''applyEffect'']"

definition object_prototype_names :: "string list" where
  "object_prototype_names =
     [''constructor'', ''hasOwnProperty'', ''isPrototypeOf'', ''propertyIsEnumerable'',
      ''toLocaleString'', ''toString'', ''valueOf'', ''__proto__'', ''__defineGetter__'',
      ''__defineSetter__'', ''__lookupGetter__'', ''__lookupSetter__'']"

datatype member = OwnTool | Inherited

definition tools_get :: "string \<Rightarrow> member option" where
  "tools_get name =
     (if name \<in> set tool_names then Some OwnTool
      else if name \<in> set object_prototype_names then Some Inherited
      else None)"

text \<open>
  \<^verbatim>\<open>tool(args)\<close>, a plain call with no receiver in module (strict) code. \<open>invoke\<close> is
  an entry of the table applied to the arguments. Of the inherited members,
  \<^verbatim>\<open>toString\<close> answers for an undefined receiver, \<^verbatim>\<open>constructor\<close> is \<^verbatim>\<open>Object\<close> and
  returns its object argument, \<^verbatim>\<open>isPrototypeOf\<close> answers false for an argument that is
  not an object; the others need a receiver, or are no function, and throw.
\<close>

definition call_member ::
  "(string \<Rightarrow> 'a option \<Rightarrow> 'st \<Rightarrow> ('a tool_value + exn) \<times> 'st) \<Rightarrow> member \<Rightarrow> string \<Rightarrow> 'a option
     \<Rightarrow> 'st \<Rightarrow> ('a tool_value + exn) \<times> 'st" where
  "call_member invoke m name args st =
     (case m of OwnTool \<Rightarrow> invoke name args st
      | Inherited \<Rightarrow>
          if name = ''toString'' then (Inl (Str ''[object Undefined]''), st)
          else if name = ''constructor'' then
            (Inl (case args of None \<Rightarrow> EmptyObj | Some a \<Rightarrow> Obj a), st)
          else if name = ''isPrototypeOf'' \<and> args = None then (Inl (Boolean False), st)
          else (Inr TypeError, st))"

definition robot :: string where
  "robot = [CHR 0xF0, CHR 0x9F, CHR 0xA4, CHR 0x96]"

text \<open>
  The \<^verbatim>\<open>while\<close> loop of \<^verbatim>\<open>sendMessage\<close>, entered with the response at hand. It may run
  for ever, and then has no result. \<open>stringify\<close> is \<^verbatim>\<open>JSON.stringify\<close>.
\<close>

partial_function (option) agent_loop ::
  "(string \<Rightarrow> 'a option \<Rightarrow> 'st \<Rightarrow> ('a tool_value + exn) \<times> 'st)
     \<Rightarrow> ('c \<Rightarrow> 'a message \<Rightarrow> exn + ('c \<times> 'a response))
     \<Rightarrow> ('a option \<Rightarrow> string)
     \<Rightarrow> 'a response \<Rightarrow> ('st, 'c) agent
     \<Rightarrow> ('a response \<times> ('st, 'c) agent) completion option" where
  "agent_loop invoke send stringify response st =
     (case functionCalls response of
        [] \<Rightarrow> Some (Normal (response, st))
      | (name, args) # others \<Rightarrow>
          (case tools_get name of
             None \<Rightarrow>
               Some (Normal (response,
                 addMessage (''Error: Unknown tool '' @ [CHR 0x22] @ name @ [CHR 0x22]) Agent st))
           | Some m \<Rightarrow>
               (case call_member invoke m name args (session st) of
                  (Inr e, sess) \<Rightarrow> Some (Thrown e (response, st\<lparr>session := sess\<rparr>))
                | (Inl toolResult, sess) \<Rightarrow>
                    (let st1 = addMessage
                                 (robot @ '' Tool call: '' @ name @ ''('' @ stringify args @ '')'')
                                 Tool (st\<lparr>session := sess\<rparr>);
                         st2 = st1\<lparr>roundTrips := Suc (roundTrips st1)\<rparr>
                     in case send (chat st2) (FunctionResponse name toolResult) of
                          Inl e \<Rightarrow> Some (Thrown e (response, st2))
                        | Inr (c, response') \<Rightarrow>
                            agent_loop invoke send stringify response' (st2\<lparr>chat := c\<rparr>)))))"

definition is_space :: "char \<Rightarrow> bool" where
  "is_space c = (c \<in> set [CHR 0x20, CHR 0x09, CHR 0x0A, CHR 0x0B, CHR 0x0C, CHR 0x0D])"

definition trim :: "string \<Rightarrow> string" where
  "trim x = rev (dropWhile is_space (rev (dropWhile is_space x)))"

definition sendMessage ::
  "(string \<Rightarrow> 'a option \<Rightarrow> 'st \<Rightarrow> ('a tool_value + exn) \<times> 'st)
     \<Rightarrow> ('c \<Rightarrow> 'a message \<Rightarrow> exn + ('c \<times> 'a response))
     \<Rightarrow> ('a option \<Rightarrow> string)
     \<Rightarrow> string \<Rightarrow> ('st, 'c) agent \<Rightarrow> ('st, 'c) agent option" where
  "sendMessage invoke send stringify agentInput st =
     (let userInput = trim agentInput
      in if userInput = [] then Some st
         else
           (let st1 = (addMessage userInput User st)\<lparr>agentSendButton_disabled := True\<rparr>;
                st2 = st1\<lparr>roundTrips := Suc (roundTrips st1)\<rparr>;
                apology = ''Sorry, I encountered an error. Please try again.''
            in case send (chat st2) (UserText userInput) of
                 Inl e \<Rightarrow> Some ((addMessage apology Agent st2)\<lparr>agentSendButton_disabled := False\<rparr>)
               | Inr (c, response) \<Rightarrow>
                   (case agent_loop invoke send stringify response (st2\<lparr>chat := c\<rparr>) of
                      None \<Rightarrow> None
                    | Some (Normal (r, st3)) \<Rightarrow>
                        Some ((addMessage (response_text r) Agent st3)\<lparr>agentSendButton_disabled := False\<rparr>)
                    | Some (Returned (r, st3)) \<Rightarrow>
                        Some (st3\<lparr>agentSendButton_disabled := False\<rparr>)
                    | Some (Thrown e (r, st3)) \<Rightarrow>
                        Some ((addMessage apology Agent st3)\<lparr>agentSendButton_disabled := False\<rparr>))))"

section \<open>The engine run of a merge, over the bin as a list\<close>

text \<open>
  What a merge is to ask of the engine, written over the bin as a list and with every
  name and argument spelled out, independently of the handler's loop and of its
  constants: the clips are written in bin order as \<^verbatim>\<open>input0.mp4\<close>, \<^verbatim>\<open>input1.mp4\<close>, ...,
  then the list file \<^verbatim>\<open>mylist.txt\<close> with one line \<^verbatim>\<open>file 'input<i>.mp4'\<close> per clip in the
  same order, then the concat demuxer runs on that list file with stream copy, and
  \<^verbatim>\<open>output.mp4\<close> is read. \<open>merge_run\<close> is \<open>None\<close> when one of these calls fails. The
  results below compare the handler with it.
\<close>

fun write_all :: "('fs, 'b) engine \<Rightarrow> (string \<times> 'b fdata) list \<Rightarrow> 'fs \<Rightarrow> 'fs option" where
  "write_all eng [] fs = Some fs"
| "write_all eng ((file_name, d) # rest) fs =
     (case writeFile eng fs file_name d of None \<Rightarrow> None | Some fs' \<Rightarrow> write_all eng rest fs')"

definition merge_inputs :: "'b clip list \<Rightarrow> (string \<times> 'b fdata) list" where
  "merge_inputs bin =
     map (\<lambda>(i, c). (''input'' @ string_of_nat i @ ''.mp4'', Bin (blob c))) (enumerate 0 bin)"

definition list_file :: "nat \<Rightarrow> string" where
  "list_file n =
     concat (map (\<lambda>i. ''file '' @ [CHR 0x27] @ ''input'' @ string_of_nat i @ ''.mp4''
                        @ [CHR 0x27, CHR 0x0A]) [0..<n])"

definition merge_run :: "('fs, 'b) engine \<Rightarrow> 'fs \<Rightarrow> 'b clip list \<Rightarrow> ('fs \<times> 'b) option" where
  "merge_run eng fs bin =
     (case write_all eng (merge_inputs bin) fs of None \<Rightarrow> None
      | Some fs1 \<Rightarrow>
          (case writeFile eng fs1 ''mylist.txt'' (Txt (list_file (length bin))) of None \<Rightarrow> None
           | Some fs2 \<Rightarrow>
               (case exec eng fs2 [Lit ''-f'', Lit ''concat'', Lit ''-safe'', Lit ''0'', Lit ''-i'',
                                   Lit ''mylist.txt'', Lit ''-c'', Lit ''copy'', Lit ''output.mp4''] of
                  None \<Rightarrow> None
                | Some fs3 \<Rightarrow>
                    (case readFile eng fs3 ''output.mp4'' of None \<Rightarrow> None
                     | Some out \<Rightarrow> Some (fs3, out)))))"

section \<open>Valid trim ranges\<close>

text \<open>
  \<open>on_tenths d\<close>: the number is a whole number of tenths. \<open>trim_range_valid d s\<close>: the
  video has the finite duration \<open>d\<close>, the end slider's maximum is \<open>d\<close>, and the two
  sliders hold numbers with \<open>0 \<le> start < end \<le> d\<close>. \<open>trim_event_ok d e\<close>: a slider
  event carries a value between 0 and \<open>d\<close>, the slider's range; a numeric box carries a
  text that parses to a number.
\<close>

definition on_tenths :: "rat \<Rightarrow> bool" where
  "on_tenths d = (of_int \<lfloor>d * 10\<rfloor> = d * 10)"

definition trim_range_valid :: "rat \<Rightarrow> ('fs, 'b) session \<Rightarrow> bool" where
  "trim_range_valid d s =
     (video_duration s = Some d \<and> trimEndMax s = Some d
      \<and> (case trimStart s of None \<Rightarrow> False
          | Some x \<Rightarrow> (case trimEnd s of None \<Rightarrow> False | Some y \<Rightarrow> 0 \<le> x \<and> x < y \<and> y \<le> d)))"

definition in_slider_range :: "rat \<Rightarrow> jsnum \<Rightarrow> bool" where
  "in_slider_range d v = (case v of None \<Rightarrow> False | Some x \<Rightarrow> 0 \<le> x \<and> x \<le> d)"

definition trim_event_ok :: "rat \<Rightarrow> trim_event \<Rightarrow> bool" where
  "trim_event_ok d e =
     (case e of StartSlider v \<Rightarrow> in_slider_range d v
      | EndSlider v \<Rightarrow> in_slider_range d v
      | StartInput v \<Rightarrow> v \<noteq> None
      | EndInput v \<Rightarrow> v \<noteq> None)"

section \<open>A reference engine and sample sessions\<close>

text \<open>
  Concrete instances on which the results below are evaluated. A payload is its list of
  frames, one per second; the engine's state is the list of files written, newest first.
  The engine reads its command: on \<^verbatim>\<open>-i input.mp4 -ss a -to b -c copy output.mp4\<close> it cuts
  the frames of \<^verbatim>\<open>input.mp4\<close> between the two times, on
  \<^verbatim>\<open>-i input.mp4 -vf <filter> output.mp4\<close> it returns the frames as they are, and on
  \<^verbatim>\<open>-f concat -safe 0 -i mylist.txt -c copy output.mp4\<close> it reads the list file line by
  line, takes from each line \<^verbatim>\<open>file '<name>'\<close> the name, and joins the files so named in
  the order of the lines; it fails on a line of another shape, on a name it holds no
  video for, and on every other command. \<open>broken_engine\<close> rejects every command.
\<close>

definition demo_read :: "(string \<times> nat list fdata) list \<Rightarrow> string \<Rightarrow> nat list option" where
  "demo_read fs file_name = (case map_of fs file_name of Some (Bin b) \<Rightarrow> Some b | _ \<Rightarrow> None)"

definition lines_of :: "string \<Rightarrow> string list" where
  "lines_of content =
     foldr (\<lambda>c acc. if c = CHR 0x0A then [] # acc
                     else (case acc of [] \<Rightarrow> [[c]] | l # ls \<Rightarrow> (c # l) # ls))
       content []"

definition line_target :: "string \<Rightarrow> string option" where
  "line_target l =
     (if 7 \<le> length l \<and> take 6 l = ''file '' @ [CHR 0x27] \<and> last l = CHR 0x27
      then Some (butlast (drop 6 l)) else None)"

definition demo_concat :: "(string \<times> nat list fdata) list \<Rightarrow> string \<Rightarrow> nat list option" where
  "demo_concat fs content =
     map_option concat
       (those (map (\<lambda>l. case line_target l of None \<Rightarrow> None | Some n \<Rightarrow> demo_read fs n)
                 (filter (\<lambda>l. l \<noteq> []) (lines_of content))))"

definition demo_exec ::
  "(string \<times> nat list fdata) list \<Rightarrow> arg list \<Rightarrow> (string \<times> nat list fdata) list option" where
  "demo_exec fs cmd =
     (if cmd = [Lit ''-f'', Lit ''concat'', Lit ''-safe'', Lit ''0'', Lit ''-i'', Lit ''mylist.txt'',
                Lit ''-c'', Lit ''copy'', Lit ''output.mp4''] then
        (case map_of fs ''mylist.txt'' of
           Some (Txt content) \<Rightarrow>
             (case demo_concat fs content of None \<Rightarrow> None
              | Some frames \<Rightarrow> Some ((''output.mp4'', Bin frames) # fs))
         | _ \<Rightarrow> None)
      else
        (case demo_read fs ''input.mp4'' of None \<Rightarrow> None
         | Some frames \<Rightarrow>
             if length cmd = 9 then
               (case (cmd ! 3, cmd ! 5) of
                  (Num (Some a), Num (Some b)) \<Rightarrow>
                    if cmd = [Lit ''-i'', Lit ''input.mp4'', Lit ''-ss'', Num (Some a), Lit ''-to'',
                              Num (Some b), Lit ''-c'', Lit ''copy'', Lit ''output.mp4'']
                    then Some ((''output.mp4'',
                                Bin (take (nat \<lfloor>b\<rfloor> - nat \<lfloor>a\<rfloor>) (drop (nat \<lfloor>a\<rfloor>) frames))) # fs)
                    else None
                | _ \<Rightarrow> None)
             else if length cmd = 5
                     \<and> cmd = [Lit ''-i'', Lit ''input.mp4'', Lit ''-vf'', cmd ! 3, Lit ''output.mp4'']
             then Some ((''output.mp4'', Bin frames) # fs)
             else None))"

definition demo_engine :: "((string \<times> nat list fdata) list, nat list) engine" where
  "demo_engine =
     \<lparr>fresh = [], load = (\<lambda>fs. Some fs),
      writeFile = (\<lambda>fs file_name d. Some ((file_name, d) # fs)),
      exec = demo_exec, readFile = demo_read\<rparr>"

definition broken_engine :: "((string \<times> nat list fdata) list, nat list) engine" where
  "broken_engine = demo_engine\<lparr>exec := (\<lambda>fs cmd. None)\<rparr>"

text \<open>An engine that accepts no file.\<close>

definition readonly_engine :: "((string \<times> nat list fdata) list, nat list) engine" where
  "readonly_engine = demo_engine\<lparr>writeFile := (\<lambda>fs file_name d. None)\<rparr>"

text \<open>
  The option values of the effects drop-down are declared by the page, which is not part
  of the module; the session carries them as \<open>effectsSelect_options\<close> and the results
  hold for every list. The samples use the six effect names that the tool declaration
  enumerates, after the \<^verbatim>\<open>none\<close> entry the handlers compare against.
\<close>

definition page_effect_options :: "string list" where
  "page_effect_options =
     [''none'', ''grayscale'', ''sepia'', ''vignette'', ''fade'', ''slowmo'', ''fastforward'']"

text \<open>The module's variables at load time.\<close>

definition initial_session :: "string list \<Rightarrow> ('fs, 'b) session" where
  "initial_session options =
     \<lparr>prompt = [], aspectRatio = ''16:9'', duration = Some 1, resolution = ''720p'', status = [],
      generateControls_disabled = False, video_src = None, video_duration = None, ffmpeg = None,
      isEditorOpen = False, trimStart = None, trimEnd = None, trimEndMax = None,
      effectsSelect = ''none'', effectsSelect_options = options, editorButtons_disabled = False,
      metaListeners = 0, mergeBin = [], mergeVideosButton_disabled = True\<rparr>"

text \<open>A session with a video of the given frames loaded, and the same with the editor opened.\<close>

definition demo_loaded :: "nat list \<Rightarrow> ((string \<times> nat list fdata) list, nat list) session" where
  "demo_loaded frames =
     video_onloadedmetadata (Some (of_nat (length frames)))
       (set_video_src frames (initial_session page_effect_options))"

definition demo_open :: "nat list \<Rightarrow> ((string \<times> nat list fdata) list, nat list) session" where
  "demo_open frames = snd (openEditor demo_engine (demo_loaded frames))"

definition ten_frames :: "nat list" where
  "ten_frames = [0, 1, 2, 3, 4, 5, 6, 7, 8, 9]"

text \<open>
  The opened editor on the ten-second video with the sliders at 2 and 5 and the grayscale
  effect selected.
\<close>

definition demo_editing :: "((string \<times> nat list fdata) list, nat list) session" where
  "demo_editing =
     (demo_open ten_frames)\<lparr>trimStart := Some 2, trimEnd := Some 5, effectsSelect := ''grayscale''\<rparr>"

text \<open>The opened editor on a one-second video with the fade effect selected.\<close>

definition demo_short :: "((string \<times> nat list fdata) list, nat list) session" where
  "demo_short = (demo_open [0])\<lparr>effectsSelect := ''fade''\<rparr>"

text \<open>
  A session whose engine is loaded and whose merge bin received a clip of four frames and
  then a clip of six frames.
\<close>

definition demo_clip :: "nat list \<Rightarrow> nat list clip" where
  "demo_clip frames = \<lparr>clip_id = None, clip_name = ''Clip'', blob = frames, thumbnail = []\<rparr>"

definition demo_engine_loaded :: "((string \<times> nat list fdata) list, nat list) session" where
  "demo_engine_loaded = state_of (loadFFmpeg demo_engine (initial_session page_effect_options))"

definition demo_bin :: "((string \<times> nat list fdata) list, nat list) session" where
  "demo_bin =
     addToMergeBin (demo_clip [20, 21, 22, 23, 24, 25])
       (addToMergeBin (demo_clip [10, 11, 12, 13]) demo_engine_loaded)"

text \<open>
  The list file the merge of that bin is to write, and the files the reference engine is
  to hold after it, newest first.
\<close>

definition demo_list_file :: string where
  "demo_list_file =
     ''file '' @ [CHR 0x27] @ ''input0.mp4'' @ [CHR 0x27, CHR 0x0A]
     @ ''file '' @ [CHR 0x27] @ ''input1.mp4'' @ [CHR 0x27, CHR 0x0A]"

definition demo_staged :: "(string \<times> nat list fdata) list" where
  "demo_staged =
     [(''input1.mp4'', Bin [20, 21, 22, 23, 24, 25]), (''input0.mp4'', Bin [10, 11, 12, 13])]"

definition demo_merged :: "(string \<times> nat list fdata) list" where
  "demo_merged =
     (''output.mp4'', Bin [10, 11, 12, 13, 20, 21, 22, 23, 24, 25])
       # (''mylist.txt'', Txt demo_list_file) # demo_staged"

text \<open>The same session after the first clip only.\<close>

definition demo_one_clip :: "((string \<times> nat list fdata) list, nat list) session" where
  "demo_one_clip = addToMergeBin (demo_clip [10, 11, 12, 13]) demo_engine_loaded"

text \<open>
  A response with two videos, and a session without a video whose payloads are named by
  the address they were fetched from.
\<close>

definition two_videos :: "gvideo list" where
  "two_videos = [\<lparr>uri = ''first''\<rparr>, \<lparr>uri = ''second''\<rparr>]"

definition demo_no_video :: "(unit, string) session" where
  "demo_no_video = initial_session page_effect_options"

text \<open>
  The opened editor on a video whose duration is reported as \<open>d\<close>, and a sequence of the
  four mutations on the ten-second video, each of which makes its handler clamp.
\<close>

definition demo_open_at :: "rat \<Rightarrow> ((string \<times> nat list fdata) list, nat list) session" where
  "demo_open_at d =
     snd (openEditor demo_engine
            (video_onloadedmetadata (Some d)
               (set_video_src ten_frames (initial_session page_effect_options))))"

definition demo_trim_events :: "trim_event list" where
  "demo_trim_events = [StartSlider (Some 10), EndSlider (Some 3), StartInput (Some 12), EndInput (Some 0)]"

text \<open>
  A conversation for the agent loop: the model answers the user's message with a call
  of the tool named \<open>requested\<close> and every later message with the text "Done."; every
  entry of the table replies "ok"; the arguments print as \<^verbatim>\<open>{}\<close>.
\<close>

definition demo_send :: "string \<Rightarrow> nat \<Rightarrow> unit message \<Rightarrow> exn + (nat \<times> unit response)" where
  "demo_send requested turn m =
     Inr (Suc turn,
          if turn = 0 then \<lparr>functionCalls = [(requested, Some ())], response_text = []\<rparr>
          else \<lparr>functionCalls = [], response_text = ''Done.''\<rparr>)"

definition demo_invoke :: "string \<Rightarrow> unit option \<Rightarrow> unit \<Rightarrow> (unit tool_value + exn) \<times> unit" where
  "demo_invoke name args st = (Inl (Str ''ok''), st)"

definition demo_agent :: "(unit, nat) agent" where
  "demo_agent = \<lparr>session = (), chat = 0, chatWindow = [], roundTrips = 0, agentSendButton_disabled = False\<rparr>"

section \<open>Results\<close>

subsection \<open>Outcomes of the two editing operations\<close>

lemma effect_switch_cases:
  "effect_switch effect k s = Thrown (Error ''Unknown effect selected'') s
   \<or> effect_switch effect k s
        = Returned (s\<lparr>status := ''Video is too short for a fade effect.'', editorButtons_disabled := False\<rparr>)
   \<or> (\<exists>flt. effect_switch effect k s = k flt s)"
  by (cases "choose_effect effect (video_duration s)") (auto simp: effect_switch_def)

lemma effect_finish_Normal:
  assumes "effect_finish eng flt s = Normal s'"
  shows "isEditorOpen s' = isEditorOpen s \<and> metaListeners s' = Suc (metaListeners s)
         \<and> status s' = ''Effect applied successfully!''"
  using assms
  by (auto simp: effect_finish_def and_then_def ffmpeg_exec_def ffmpeg_readFile_def set_video_src_def
      split: option.splits)

lemma handleApplyEffect_body_Normal:
  assumes "handleApplyEffect_body eng b effect s = Normal s'"
  shows "isEditorOpen s' = isEditorOpen s \<and> metaListeners s' = Suc (metaListeners s)
         \<and> status s' = ''Effect applied successfully!''"
proof (cases "ffmpeg_writeFile eng ''input.mp4'' (Bin b) s")
  case (Normal s1)
  then have s1: "isEditorOpen s1 = isEditorOpen s" "metaListeners s1 = metaListeners s"
    by (auto simp: ffmpeg_writeFile_def split: option.splits)
  from Normal assms have sw: "effect_switch effect (effect_finish eng) s1 = Normal s'"
    by (simp add: handleApplyEffect_body_def and_then_def)
  from effect_switch_cases [of effect "effect_finish eng" s1] sw
  obtain flt where "effect_finish eng flt s1 = Normal s'" by auto
  from effect_finish_Normal [OF this] s1 show ?thesis by simp
next
  case (Returned s1)
  with assms show ?thesis by (simp add: handleApplyEffect_body_def and_then_def)
next
  case (Thrown e s1)
  with assms show ?thesis by (simp add: handleApplyEffect_body_def and_then_def)
qed

lemma handleApplyEffect_not_Thrown: "handleApplyEffect eng s \<noteq> Thrown e s'"
  by (simp add: handleApplyEffect_def try_catch_finally_def Let_def
      split: option.splits completion.splits)

lemma applyTrim_not_Thrown: "applyTrim eng s \<noteq> Thrown e s'"
  by (simp add: applyTrim_def try_catch_finally_def split: option.splits completion.splits)

lemma handleApplyEffect_success:
  assumes "handleApplyEffect eng s = Normal s'" and "status s' = ''Effect applied successfully!''"
  shows "isEditorOpen s' = isEditorOpen s \<and> metaListeners s' = Suc (metaListeners s)"
proof -
  from assms(1) obtain fs b where g: "ffmpeg s = Some fs" "video_src s = Some b" "effectsSelect s \<noteq> ''none''"
    by (auto simp: handleApplyEffect_def Let_def split: option.splits if_splits)
  define s0 where "s0 = s\<lparr>status := ''Applying '' @ effectsSelect s @ '' effect... Please wait.'',
                          editorButtons_disabled := True\<rparr>"
  from assms g have "\<exists>sb. handleApplyEffect_body eng b (effectsSelect s) s0 = Normal sb
      \<and> s' = sb\<lparr>editorButtons_disabled := False\<rparr>"
    by (cases "handleApplyEffect_body eng b (effectsSelect s) s0")
       (auto simp: handleApplyEffect_def Let_def try_catch_finally_def s0_def)
  then obtain sb where sb: "handleApplyEffect_body eng b (effectsSelect s) s0 = Normal sb"
      "s' = sb\<lparr>editorButtons_disabled := False\<rparr>" by blast
  from handleApplyEffect_body_Normal [OF sb(1)] sb(2) show ?thesis by (simp add: s0_def)
qed

lemma applyTrim_success:
  assumes "applyTrim eng s = Normal s'" and "status s' = ''Trim successful!''"
  shows "trimStart s' = trimStart s \<and> trimEnd s' = trimEnd s \<and> trimEndMax s' = trimEndMax s
         \<and> metaListeners s' = metaListeners s"
  using assms
  by (auto simp: applyTrim_def applyTrim_body_def cancelTrimButton_onclick_def
        try_catch_finally_def and_then_def ffmpeg_writeFile_def ffmpeg_exec_def
        ffmpeg_readFile_def set_video_src_def button_click_def Let_def
      split: option.splits if_splits)

lemma reset_trim_range_pow_keeps:
  "video_duration ((reset_trim_range ^^ n) t) = video_duration t
   \<and> isEditorOpen ((reset_trim_range ^^ n) t) = isEditorOpen t"
  by (induction n) (simp_all add: reset_trim_range_def)

lemma reset_trim_range_pow_Suc:
  "trimStart ((reset_trim_range ^^ Suc n) t) = Some 0
   \<and> trimEnd ((reset_trim_range ^^ Suc n) t) = video_duration t
   \<and> trimEndMax ((reset_trim_range ^^ Suc n) t) = video_duration t"
  by (simp add: reset_trim_range_def reset_trim_range_pow_keeps)

subsection \<open>C1: the trim range after an effect and after a trim\<close>

lemma applyTrim_replaces:
  assumes "applyTrim eng s = Normal s'" and "status s' = ''Trim successful!''"
  shows "\<exists>fs b fs1 fs2 out.
           ffmpeg s = Some fs \<and> video_src s = Some b
           \<and> writeFile eng fs ''input.mp4'' (Bin b) = Some fs1
           \<and> exec eng fs1 [Lit ''-i'', Lit ''input.mp4'', Lit ''-ss'', Num (trimStart s), Lit ''-to'',
                           Num (trimEnd s), Lit ''-c'', Lit ''copy'', Lit ''output.mp4''] = Some fs2
           \<and> readFile eng fs2 ''output.mp4'' = Some out
           \<and> video_src s' = Some out \<and> video_duration s' = None"
  using assms
  by (auto simp: applyTrim_def applyTrim_body_def cancelTrimButton_onclick_def trim_command_def
        try_catch_finally_def and_then_def ffmpeg_writeFile_def ffmpeg_exec_def
        ffmpeg_readFile_def set_video_src_def button_click_def Let_def
      split: option.splits if_splits)

lemma effect_switch_Normal:
  assumes "effect_switch effect k s = Normal s'"
  shows "\<exists>flt. choose_effect effect (video_duration s) = Filter flt \<and> k flt s = Normal s'"
  using assms by (cases "choose_effect effect (video_duration s)") (auto simp: effect_switch_def)

lemma effect_finish_replaces:
  assumes "effect_finish eng flt s = Normal s'"
  shows "\<exists>fs fs2 out.
           ffmpeg s = Some fs
           \<and> exec eng fs [Lit ''-i'', Lit ''input.mp4'', Lit ''-vf'', flt, Lit ''output.mp4''] = Some fs2
           \<and> readFile eng fs2 ''output.mp4'' = Some out
           \<and> video_src s' = Some out \<and> video_duration s' = None"
  using assms
  by (auto simp: effect_finish_def effect_command_def and_then_def ffmpeg_exec_def
        ffmpeg_readFile_def set_video_src_def
      split: option.splits)

lemma handleApplyEffect_body_replaces:
  assumes "handleApplyEffect_body eng b effect s = Normal s'"
  shows "\<exists>fs fs1 flt fs2 out.
           ffmpeg s = Some fs
           \<and> writeFile eng fs ''input.mp4'' (Bin b) = Some fs1
           \<and> choose_effect effect (video_duration s) = Filter flt
           \<and> exec eng fs1 [Lit ''-i'', Lit ''input.mp4'', Lit ''-vf'', flt, Lit ''output.mp4''] = Some fs2
           \<and> readFile eng fs2 ''output.mp4'' = Some out
           \<and> video_src s' = Some out \<and> video_duration s' = None"
proof (cases "ffmpeg_writeFile eng ''input.mp4'' (Bin b) s")
  case (Normal s1)
  then obtain fs fs1 where w: "ffmpeg s = Some fs" "writeFile eng fs ''input.mp4'' (Bin b) = Some fs1"
      "s1 = s\<lparr>ffmpeg := Some fs1\<rparr>"
    by (auto simp: ffmpeg_writeFile_def split: option.splits)
  from Normal assms have "effect_switch effect (effect_finish eng) s1 = Normal s'"
    by (simp add: handleApplyEffect_body_def and_then_def)
  from effect_switch_Normal [OF this] obtain flt where
    c: "choose_effect effect (video_duration s1) = Filter flt" and f: "effect_finish eng flt s1 = Normal s'"
    by blast
  from effect_finish_replaces [OF f] w(3) obtain fs2 out where
    "exec eng fs1 [Lit ''-i'', Lit ''input.mp4'', Lit ''-vf'', flt, Lit ''output.mp4''] = Some fs2"
    "readFile eng fs2 ''output.mp4'' = Some out" "video_src s' = Some out" "video_duration s' = None"
    by auto
  with w c show ?thesis by auto
next
  case (Returned s1)
  with assms show ?thesis by (simp add: handleApplyEffect_body_def and_then_def)
next
  case (Thrown e s1)
  with assms show ?thesis by (simp add: handleApplyEffect_body_def and_then_def)
qed

lemma handleApplyEffect_replaces:
  assumes "handleApplyEffect eng s = Normal s'" and "status s' = ''Effect applied successfully!''"
  shows "\<exists>fs b fs1 flt fs2 out.
           ffmpeg s = Some fs \<and> video_src s = Some b
           \<and> writeFile eng fs ''input.mp4'' (Bin b) = Some fs1
           \<and> choose_effect (effectsSelect s) (video_duration s) = Filter flt
           \<and> exec eng fs1 [Lit ''-i'', Lit ''input.mp4'', Lit ''-vf'', flt, Lit ''output.mp4''] = Some fs2
           \<and> readFile eng fs2 ''output.mp4'' = Some out
           \<and> video_src s' = Some out \<and> video_duration s' = None"
proof -
  from assms(1) obtain fs b where g: "ffmpeg s = Some fs" "video_src s = Some b" "effectsSelect s \<noteq> ''none''"
    by (auto simp: handleApplyEffect_def Let_def split: option.splits if_splits)
  define s0 where "s0 = s\<lparr>status := ''Applying '' @ effectsSelect s @ '' effect... Please wait.'',
                          editorButtons_disabled := True\<rparr>"
  from assms g have "\<exists>sb. handleApplyEffect_body eng b (effectsSelect s) s0 = Normal sb
      \<and> s' = sb\<lparr>editorButtons_disabled := False\<rparr>"
    by (cases "handleApplyEffect_body eng b (effectsSelect s) s0")
       (auto simp: handleApplyEffect_def Let_def try_catch_finally_def s0_def)
  then obtain sb where sb: "handleApplyEffect_body eng b (effectsSelect s) s0 = Normal sb"
      "s' = sb\<lparr>editorButtons_disabled := False\<rparr>" by blast
  from handleApplyEffect_body_replaces [OF sb(1)] g sb(2) show ?thesis by (auto simp: s0_def)
qed

lemma reset_trim_range_pow_video_src:
  "video_src ((reset_trim_range ^^ n) t) = video_src t"
  by (induction n) (simp_all add: reset_trim_range_def)

lemma video_onloadedmetadata_video_src:
  "video_src (video_onloadedmetadata d t) = video_src t"
  by (simp add: video_onloadedmetadata_def reset_trim_range_pow_video_src del: funpow.simps)

text \<open>
  C1, as amended. With the editor open, an effect that is applied successfully replaces
  the video by what the engine produced for the chosen filter and leaves the editor open;
  when the metadata of the new video has loaded, with duration \<open>d\<close>, the trim range is
  the full range from 0 to \<open>d\<close>. A trim that is applied successfully replaces the video
  by what the engine produced for the trim command with the sliders' bounds, and does not
  recompute the range: provided no effect's metadata listener is still pending, the
  sliders and their maximum keep the values they had, also after the metadata of the
  trimmed video has loaded.
\<close>

theorem effect_resets_trim_range_trim_keeps_it:
  assumes "isEditorOpen s"
  shows "(handleApplyEffect eng s = Normal s1 \<and> status s1 = ''Effect applied successfully!''
            \<longrightarrow> (\<exists>fs b fs1 flt fs2 out.
                    ffmpeg s = Some fs \<and> video_src s = Some b
                    \<and> writeFile eng fs ''input.mp4'' (Bin b) = Some fs1
                    \<and> choose_effect (effectsSelect s) (video_duration s) = Filter flt
                    \<and> exec eng fs1 [Lit ''-i'', Lit ''input.mp4'', Lit ''-vf'', flt, Lit ''output.mp4'']
                        = Some fs2
                    \<and> readFile eng fs2 ''output.mp4'' = Some out
                    \<and> video_src s1 = Some out
                    \<and> video_src (video_onloadedmetadata d s1) = Some out)
                \<and> isEditorOpen s1
                \<and> isEditorOpen (video_onloadedmetadata d s1)
                \<and> video_duration (video_onloadedmetadata d s1) = d
                \<and> trimStart (video_onloadedmetadata d s1) = Some 0
                \<and> trimEnd (video_onloadedmetadata d s1) = d
                \<and> trimEndMax (video_onloadedmetadata d s1) = d)
       \<and> (applyTrim eng s = Normal s2 \<and> status s2 = ''Trim successful!'' \<and> metaListeners s = 0
            \<longrightarrow> (\<exists>fs b fs1 fs2 out.
                    ffmpeg s = Some fs \<and> video_src s = Some b
                    \<and> writeFile eng fs ''input.mp4'' (Bin b) = Some fs1
                    \<and> exec eng fs1 [Lit ''-i'', Lit ''input.mp4'', Lit ''-ss'', Num (trimStart s),
                                    Lit ''-to'', Num (trimEnd s), Lit ''-c'', Lit ''copy'',
                                    Lit ''output.mp4''] = Some fs2
                    \<and> readFile eng fs2 ''output.mp4'' = Some out
                    \<and> video_src s2 = Some out
                    \<and> video_src (video_onloadedmetadata d s2) = Some out)
                \<and> video_duration (video_onloadedmetadata d s2) = d
                \<and> trimStart s2 = trimStart s \<and> trimEnd s2 = trimEnd s \<and> trimEndMax s2 = trimEndMax s
                \<and> trimStart (video_onloadedmetadata d s2) = trimStart s
                \<and> trimEnd (video_onloadedmetadata d s2) = trimEnd s
                \<and> trimEndMax (video_onloadedmetadata d s2) = trimEndMax s)"
proof (intro conjI impI)
  assume a: "handleApplyEffect eng s = Normal s1 \<and> status s1 = ''Effect applied successfully!''"
  then have k: "isEditorOpen s1 = isEditorOpen s" "metaListeners s1 = Suc (metaListeners s)"
    using handleApplyEffect_success by blast+
  from a handleApplyEffect_replaces [of eng s s1]
  show "\<exists>fs b fs1 flt fs2 out.
          ffmpeg s = Some fs \<and> video_src s = Some b
          \<and> writeFile eng fs ''input.mp4'' (Bin b) = Some fs1
          \<and> choose_effect (effectsSelect s) (video_duration s) = Filter flt
          \<and> exec eng fs1 [Lit ''-i'', Lit ''input.mp4'', Lit ''-vf'', flt, Lit ''output.mp4'']
              = Some fs2
          \<and> readFile eng fs2 ''output.mp4'' = Some out
          \<and> video_src s1 = Some out
          \<and> video_src (video_onloadedmetadata d s1) = Some out"
    unfolding video_onloadedmetadata_video_src by blast
  show "isEditorOpen s1" using k assms by simp
  show "isEditorOpen (video_onloadedmetadata d s1)"
    using k assms by (simp add: video_onloadedmetadata_def reset_trim_range_pow_keeps del: funpow.simps)
  show "video_duration (video_onloadedmetadata d s1) = d"
    by (simp add: video_onloadedmetadata_def reset_trim_range_pow_keeps del: funpow.simps)
  show "trimStart (video_onloadedmetadata d s1) = Some 0"
    using k by (simp add: video_onloadedmetadata_def reset_trim_range_pow_Suc del: funpow.simps)
  show "trimEnd (video_onloadedmetadata d s1) = d"
    using k by (simp add: video_onloadedmetadata_def reset_trim_range_pow_Suc del: funpow.simps)
  show "trimEndMax (video_onloadedmetadata d s1) = d"
    using k by (simp add: video_onloadedmetadata_def reset_trim_range_pow_Suc del: funpow.simps)
next
  assume b: "applyTrim eng s = Normal s2 \<and> status s2 = ''Trim successful!'' \<and> metaListeners s = 0"
  then have k: "trimStart s2 = trimStart s" "trimEnd s2 = trimEnd s" "trimEndMax s2 = trimEndMax s"
      "metaListeners s2 = 0"
    using applyTrim_success by fastforce+
  from b applyTrim_replaces [of eng s s2]
  show "\<exists>fs b fs1 fs2 out.
          ffmpeg s = Some fs \<and> video_src s = Some b
          \<and> writeFile eng fs ''input.mp4'' (Bin b) = Some fs1
          \<and> exec eng fs1 [Lit ''-i'', Lit ''input.mp4'', Lit ''-ss'', Num (trimStart s),
                          Lit ''-to'', Num (trimEnd s), Lit ''-c'', Lit ''copy'',
                          Lit ''output.mp4''] = Some fs2
          \<and> readFile eng fs2 ''output.mp4'' = Some out
          \<and> video_src s2 = Some out
          \<and> video_src (video_onloadedmetadata d s2) = Some out"
    unfolding video_onloadedmetadata_video_src by blast
  show "video_duration (video_onloadedmetadata d s2) = d"
    by (simp add: video_onloadedmetadata_def reset_trim_range_pow_keeps del: funpow.simps)
  show "trimStart s2 = trimStart s" "trimEnd s2 = trimEnd s" "trimEndMax s2 = trimEndMax s"
    using k by simp_all
  show "trimStart (video_onloadedmetadata d s2) = trimStart s"
       "trimEnd (video_onloadedmetadata d s2) = trimEnd s"
       "trimEndMax (video_onloadedmetadata d s2) = trimEndMax s"
    using k by (simp_all add: video_onloadedmetadata_def)
qed

text \<open>
  The theorem at the ten-second video with the reference engine: the grayscale effect
  succeeds, the video is the engine's output and the range becomes 0 to 3 when the new
  duration is reported as 3; the trim from 2 to 5 succeeds, the video is the three frames
  2, 3, 4 and the range stays 2 to 5 with maximum 10.
\<close>

theorem effect_resets_trim_range_trim_keeps_it_witness:
  "isEditorOpen demo_editing
   \<and> handleApplyEffect demo_engine demo_editing = Normal (state_of (handleApplyEffect demo_engine demo_editing))
   \<and> status (state_of (handleApplyEffect demo_engine demo_editing)) = ''Effect applied successfully!''
   \<and> video_src (state_of (handleApplyEffect demo_engine demo_editing)) = Some ten_frames
   \<and> trimStart (video_onloadedmetadata (Some 3) (state_of (handleApplyEffect demo_engine demo_editing))) = Some 0
   \<and> trimEnd (video_onloadedmetadata (Some 3) (state_of (handleApplyEffect demo_engine demo_editing))) = Some 3
   \<and> applyTrim demo_engine demo_editing = Normal (state_of (applyTrim demo_engine demo_editing))
   \<and> status (state_of (applyTrim demo_engine demo_editing)) = ''Trim successful!''
   \<and> metaListeners demo_editing = 0
   \<and> video_src (state_of (applyTrim demo_engine demo_editing)) = Some [2, 3, 4]
   \<and> video_src (video_onloadedmetadata (Some 3) (state_of (applyTrim demo_engine demo_editing))) = Some [2, 3, 4]
   \<and> trimStart (video_onloadedmetadata (Some 3) (state_of (applyTrim demo_engine demo_editing))) = Some 2
   \<and> trimEnd (video_onloadedmetadata (Some 3) (state_of (applyTrim demo_engine demo_editing))) = Some 5
   \<and> trimEndMax (video_onloadedmetadata (Some 3) (state_of (applyTrim demo_engine demo_editing))) = Some 10"
proof -
  have h: "isEditorOpen demo_editing" by code_simp
  have e: "handleApplyEffect demo_engine demo_editing = Normal (state_of (handleApplyEffect demo_engine demo_editing))
           \<and> status (state_of (handleApplyEffect demo_engine demo_editing)) = ''Effect applied successfully!''"
    by code_simp
  have t: "applyTrim demo_engine demo_editing = Normal (state_of (applyTrim demo_engine demo_editing))
           \<and> status (state_of (applyTrim demo_engine demo_editing)) = ''Trim successful!''
           \<and> metaListeners demo_editing = 0"
    by code_simp
  have v: "trimStart demo_editing = Some 2 \<and> trimEnd demo_editing = Some 5
           \<and> trimEndMax demo_editing = Some 10
           \<and> video_src (state_of (handleApplyEffect demo_engine demo_editing)) = Some ten_frames
           \<and> video_src (state_of (applyTrim demo_engine demo_editing)) = Some [2, 3, 4]"
    by code_simp
  from effect_resets_trim_range_trim_keeps_it [OF h, of demo_engine
      "state_of (handleApplyEffect demo_engine demo_editing)" "Some 3"
      "state_of (applyTrim demo_engine demo_editing)"] h e t v
  show ?thesis by (simp add: video_onloadedmetadata_video_src)
qed

text \<open>
  C1 as stated fails: the ten-second video is open in the editor with range 0 to 10, and
  \<^verbatim>\<open>trimVideo(2, 5)\<close> succeeds and installs the three frames 2, 3, 4; when the duration 3
  of the new video is reported, the trim range is 2 to 5, not 0 to 3.
\<close>

theorem trimVideo_range_not_reset_counterexample:
  "isEditorOpen (demo_open ten_frames)
   \<and> video_duration (demo_open ten_frames) = Some 10
   \<and> trimStart (demo_open ten_frames) = Some 0
   \<and> trimEnd (demo_open ten_frames) = Some 10
   \<and> fst (trimVideo demo_engine (Some 2) (Some 5) (demo_open ten_frames)) = Reply ''Video trimmed successfully.''
   \<and> status (snd (trimVideo demo_engine (Some 2) (Some 5) (demo_open ten_frames))) = ''Trim successful!''
   \<and> video_src (snd (trimVideo demo_engine (Some 2) (Some 5) (demo_open ten_frames))) = Some [2, 3, 4]
   \<and> trimStart (video_onloadedmetadata (Some 3)
        (snd (trimVideo demo_engine (Some 2) (Some 5) (demo_open ten_frames)))) = Some 2
   \<and> trimEnd (video_onloadedmetadata (Some 3)
        (snd (trimVideo demo_engine (Some 2) (Some 5) (demo_open ten_frames)))) = Some 5"
  by code_simp

subsection \<open>C4: a fade on a clip shorter than two seconds\<close>

lemma choose_effect_fade_short:
  "d = None \<or> js_lt d (Some 2) \<Longrightarrow> choose_effect ''fade'' d = TooShort"
  by (simp add: choose_effect_def)

lemma fade_short_returns:
  assumes "ffmpeg s = Some fs" "video_src s = Some b" "effectsSelect s = ''fade''"
    "video_duration s = None \<or> js_lt (video_duration s) (Some 2)"
    "writeFile eng fs ''input.mp4'' (Bin b) = Some fs1"
  shows "handleApplyEffect eng s
         = Returned (s\<lparr>status := ''Video is too short for a fade effect.'', ffmpeg := Some fs1,
                      editorButtons_disabled := False\<rparr>)"
  using assms
  by (simp add: handleApplyEffect_def handleApplyEffect_body_def ffmpeg_writeFile_def
      and_then_def effect_switch_def choose_effect_fade_short try_catch_finally_def)

lemma effect_write_fails:
  assumes "ffmpeg s = Some fs" "video_src s = Some b" "effectsSelect s \<noteq> ''none''"
    "writeFile eng fs ''input.mp4'' (Bin b) = None"
  shows "handleApplyEffect eng s
         = Normal (s\<lparr>status := ''An error occurred while applying the effect.'',
                    editorButtons_disabled := False\<rparr>)"
  using assms
  by (simp add: handleApplyEffect_def handleApplyEffect_body_def ffmpeg_writeFile_def
      and_then_def try_catch_finally_def)

lemma effect_without_engine:
  assumes "ffmpeg s = None"
  shows "handleApplyEffect eng s = Returned s"
  using assms by (simp add: handleApplyEffect_def)

text \<open>
  C4, as amended. A video is present whose duration is below two seconds (or not known)
  and the fade effect is selected. Then \<open>handleApplyEffect\<close> leaves the video and its
  duration as they are, and its result is the same whatever the engine's transform would
  have done, which is to say that no transform is run. What it reports depends on the
  copy of the video that it stages in the engine before it looks at the effect: when the
  engine is loaded and takes the copy, the function returns with the status "Video is
  too short for a fade effect." and changes nothing else but the staged copy and the
  re-enabled buttons; when the engine rejects the copy, the status is "An error occurred
  while applying the effect."; when no engine is loaded, the function returns at once and
  the session is as before.
\<close>

theorem fade_on_short_clip_runs_no_transform:
  assumes "video_src s = Some b" "effectsSelect s = ''fade''"
    "video_duration s = None \<or> js_lt (video_duration s) (Some 2)"
  shows "video_src (state_of (handleApplyEffect eng s)) = video_src s
         \<and> video_duration (state_of (handleApplyEffect eng s)) = video_duration s
         \<and> (\<forall>transform. handleApplyEffect (eng\<lparr>exec := transform\<rparr>) s = handleApplyEffect eng s)
         \<and> (ffmpeg s = Some fs \<and> writeFile eng fs ''input.mp4'' (Bin b) = Some fs1 \<longrightarrow>
              handleApplyEffect eng s
                = Returned (s\<lparr>status := ''Video is too short for a fade effect.'', ffmpeg := Some fs1,
                             editorButtons_disabled := False\<rparr>))
         \<and> (ffmpeg s = Some fs \<and> writeFile eng fs ''input.mp4'' (Bin b) = None \<longrightarrow>
              handleApplyEffect eng s
                = Normal (s\<lparr>status := ''An error occurred while applying the effect.'',
                           editorButtons_disabled := False\<rparr>))
         \<and> (ffmpeg s = None \<longrightarrow> handleApplyEffect eng s = Returned s)"
proof -
  have fade: "effectsSelect s \<noteq> ''none''" using assms(2) by simp
  have main: "video_src (state_of (handleApplyEffect e s)) = video_src s
      \<and> video_duration (state_of (handleApplyEffect e s)) = video_duration s
      \<and> handleApplyEffect (e\<lparr>exec := transform\<rparr>) s = handleApplyEffect e s" for e transform
  proof (cases "ffmpeg s")
    case None
    then show ?thesis by (simp add: effect_without_engine state_of_def)
  next
    case (Some fs0)
    show ?thesis
    proof (cases "writeFile e fs0 ''input.mp4'' (Bin b)")
      case None
      then have w: "writeFile (e\<lparr>exec := transform\<rparr>) fs0 ''input.mp4'' (Bin b) = None" by simp
      show ?thesis
        by (simp add: effect_write_fails [OF Some assms(1) fade None]
            effect_write_fails [OF Some assms(1) fade w] state_of_def)
    next
      case (Some fs2)
      then have w: "writeFile (e\<lparr>exec := transform\<rparr>) fs0 ''input.mp4'' (Bin b) = Some fs2" by simp
      show ?thesis
        by (simp add: fade_short_returns [OF \<open>ffmpeg s = Some fs0\<close> assms(1) assms(2) assms(3) Some]
            fade_short_returns [OF \<open>ffmpeg s = Some fs0\<close> assms(1) assms(2) assms(3) w] state_of_def)
    qed
  qed
  show ?thesis
  proof (intro conjI allI impI)
    show "video_src (state_of (handleApplyEffect eng s)) = video_src s"
      and "video_duration (state_of (handleApplyEffect eng s)) = video_duration s"
      using main [of eng] by simp_all
    show "handleApplyEffect (eng\<lparr>exec := transform\<rparr>) s = handleApplyEffect eng s" for transform
      using main [of eng transform] by simp
    show "handleApplyEffect eng s
                = Returned (s\<lparr>status := ''Video is too short for a fade effect.'', ffmpeg := Some fs1,
                             editorButtons_disabled := False\<rparr>)"
      if "ffmpeg s = Some fs \<and> writeFile eng fs ''input.mp4'' (Bin b) = Some fs1"
      using that fade_short_returns [of s fs b eng fs1] assms by simp
    show "handleApplyEffect eng s
                = Normal (s\<lparr>status := ''An error occurred while applying the effect.'',
                           editorButtons_disabled := False\<rparr>)"
      if "ffmpeg s = Some fs \<and> writeFile eng fs ''input.mp4'' (Bin b) = None"
      using that effect_write_fails [of s fs b eng] assms(1) fade by simp
    show "handleApplyEffect eng s = Returned s" if "ffmpeg s = None"
      using that by (rule effect_without_engine)
  qed
qed

text \<open>
  The theorem at the one-second video: on the reference engine, on the engine that accepts
  no file, and with no engine loaded.
\<close>

theorem fade_on_short_clip_runs_no_transform_witness:
  "video_src demo_short = Some [0] \<and> effectsSelect demo_short = ''fade''
   \<and> video_duration demo_short = Some 1 \<and> js_lt (video_duration demo_short) (Some 2)
   \<and> ffmpeg demo_short = Some []
   \<and> writeFile demo_engine [] ''input.mp4'' (Bin [0]) = Some [(''input.mp4'', Bin [0])]
   \<and> handleApplyEffect demo_engine demo_short
       = Returned (demo_short\<lparr>status := ''Video is too short for a fade effect.'',
                     ffmpeg := Some [(''input.mp4'', Bin [0])], editorButtons_disabled := False\<rparr>)
   \<and> video_src (state_of (handleApplyEffect demo_engine demo_short)) = Some [0]
   \<and> handleApplyEffect broken_engine demo_short = handleApplyEffect demo_engine demo_short
   \<and> writeFile readonly_engine [] ''input.mp4'' (Bin [0]) = None
   \<and> handleApplyEffect readonly_engine demo_short
       = Normal (demo_short\<lparr>status := ''An error occurred while applying the effect.'',
                   editorButtons_disabled := False\<rparr>)
   \<and> video_src (state_of (handleApplyEffect readonly_engine demo_short)) = Some [0]
   \<and> handleApplyEffect demo_engine (demo_short\<lparr>ffmpeg := None\<rparr>) = Returned (demo_short\<lparr>ffmpeg := None\<rparr>)"
proof -
  have h: "video_src demo_short = Some [0]" "effectsSelect demo_short = ''fade''"
    "video_duration demo_short = Some 1" "js_lt (video_duration demo_short) (Some 2)"
    "ffmpeg demo_short = Some []"
    "writeFile demo_engine [] ''input.mp4'' (Bin [0]) = Some [(''input.mp4'', Bin [0])]"
    "writeFile readonly_engine [] ''input.mp4'' (Bin [0]) = None"
    by code_simp+
  have d: "video_duration demo_short = None \<or> js_lt (video_duration demo_short) (Some 2)"
    using h(4) by simp
  have d': "video_duration (demo_short\<lparr>ffmpeg := None\<rparr>) = None
              \<or> js_lt (video_duration (demo_short\<lparr>ffmpeg := None\<rparr>)) (Some 2)"
    using h(4) by simp
  note t1 = fade_on_short_clip_runs_no_transform [OF h(1) h(2) d,
      where eng = demo_engine and fs = "[]" and ?fs1.0 = "[(''input.mp4'', Bin [0])]"]
  note t2 = fade_on_short_clip_runs_no_transform [OF h(1) h(2) d,
      where eng = readonly_engine and fs = "[]"]
  note t3 = fade_on_short_clip_runs_no_transform [of "demo_short\<lparr>ffmpeg := None\<rparr>" "[0]" demo_engine]
  have b: "handleApplyEffect broken_engine demo_short = handleApplyEffect demo_engine demo_short"
    using t1 by (simp add: broken_engine_def)
  have n: "handleApplyEffect demo_engine (demo_short\<lparr>ffmpeg := None\<rparr>) = Returned (demo_short\<lparr>ffmpeg := None\<rparr>)"
    using t3 h(1) h(2) d' by simp
  from t1 t2 h b n show ?thesis by (simp add: state_of_def)
qed

text \<open>
  C4 as stated fails. On the one-second video with the fade effect selected, an engine
  that rejects the staged copy makes the handler report "An error occurred while applying
  the effect.", not that the clip is too short; and with no engine loaded the handler
  returns without a report, the status staying what it was.
\<close>

theorem fade_on_short_clip_other_report_counterexample:
  "video_src demo_short = Some [0]
   \<and> video_duration demo_short = Some 1
   \<and> effectsSelect demo_short = ''fade''
   \<and> status (state_of (handleApplyEffect readonly_engine demo_short))
       = ''An error occurred while applying the effect.''
   \<and> status (state_of (handleApplyEffect readonly_engine demo_short))
       \<noteq> ''Video is too short for a fade effect.''
   \<and> status (state_of (handleApplyEffect demo_engine (demo_short\<lparr>ffmpeg := None\<rparr>))) = ''Editor loaded.''
   \<and> status (state_of (handleApplyEffect demo_engine (demo_short\<lparr>ffmpeg := None\<rparr>)))
       \<noteq> ''Video is too short for a fade effect.''"
  by code_simp

subsection \<open>C7, C6, C9: what the dispatcher replies\<close>

lemma applyTrim_returns:
  "\<exists>s'. applyTrim eng s = Normal s' \<or> applyTrim eng s = Returned s'"
  using applyTrim_not_Thrown [of eng s] by (cases "applyTrim eng s") auto

lemma handleApplyEffect_returns:
  "\<exists>s'. handleApplyEffect eng s = Normal s' \<or> handleApplyEffect eng s = Returned s'"
  using handleApplyEffect_not_Thrown [of eng s] by (cases "handleApplyEffect eng s") auto

lemma trimVideo_valid_reply:
  assumes "isEditorOpen s" "video_duration s = Some d" "0 \<le> x" "x < y" "y \<le> d"
  shows "fst (trimVideo eng (Some x) (Some y) s) = Reply ''Video trimmed successfully.''"
proof -
  obtain s' where "applyTrim eng (s\<lparr>trimStart := Some x, trimEnd := Some y\<rparr>) = Normal s'
      \<or> applyTrim eng (s\<lparr>trimStart := Some x, trimEnd := Some y\<rparr>) = Returned s'"
    using applyTrim_returns by blast
  with assms show ?thesis
    by (auto simp: trimVideo_def js_ge_def js_le_def js_lt_def js_gt_def)
qed

lemma applyEffect_valid_reply:
  assumes "isEditorOpen s" "effectName \<in> set (validEffects s)"
  shows "fst (applyEffect eng effectName s) = Reply (''Applied the '' @ effectName @ '' effect successfully.'')"
proof -
  obtain s' where "handleApplyEffect eng (s\<lparr>effectsSelect := select_assign (effectsSelect_options s) effectName\<rparr>) = Normal s'
      \<or> handleApplyEffect eng (s\<lparr>effectsSelect := select_assign (effectsSelect_options s) effectName\<rparr>) = Returned s'"
    using handleApplyEffect_returns by blast
  with assms show ?thesis
    by (auto simp: applyEffect_def)
qed

lemma applyTrim_exec_fails:
  assumes "ffmpeg s = Some fs" "video_src s = Some b" "\<forall>fs' cmd. exec eng fs' cmd = None"
  shows "video_src (state_of (applyTrim eng s)) = video_src s
       \<and> status (state_of (applyTrim eng s)) = ''An error occurred during trimming.''"
  using assms
  by (cases "writeFile eng fs ''input.mp4'' (Bin b)")
     (simp_all add: applyTrim_def applyTrim_body_def try_catch_finally_def and_then_def
        ffmpeg_writeFile_def ffmpeg_exec_def state_of_def)

text \<open>
  C7. With the editor open, \<^verbatim>\<open>trimVideo\<close> called with times inside the video and
  \<^verbatim>\<open>applyEffect\<close> called with a name of the drop-down reply with the success sentence,
  for every engine. In particular the reply is the success sentence when every command
  of the engine fails, the status then says that the trim failed and the video is the old
  one; and when a fade is asked of a clip below two seconds, the status then says that
  the clip is too short and the video is the old one.
\<close>

theorem tools_report_success_whatever_the_engine_does:
  assumes "isEditorOpen s"
  shows "(video_duration s = Some d \<and> 0 \<le> x \<and> x < y \<and> y \<le> d
            \<longrightarrow> fst (trimVideo eng (Some x) (Some y) s) = Reply ''Video trimmed successfully.'')
       \<and> (effectName \<in> set (validEffects s)
            \<longrightarrow> fst (applyEffect eng effectName s)
                  = Reply (''Applied the '' @ effectName @ '' effect successfully.''))
       \<and> (video_duration s = Some d \<and> 0 \<le> x \<and> x < y \<and> y \<le> d
            \<and> ffmpeg s = Some fs \<and> video_src s = Some b \<and> (\<forall>fs' cmd. exec eng fs' cmd = None)
            \<longrightarrow> fst (trimVideo eng (Some x) (Some y) s) = Reply ''Video trimmed successfully.''
                \<and> status (snd (trimVideo eng (Some x) (Some y) s)) = ''An error occurred during trimming.''
                \<and> video_src (snd (trimVideo eng (Some x) (Some y) s)) = video_src s)
       \<and> (''fade'' \<in> set (effectsSelect_options s)
            \<and> (video_duration s = None \<or> js_lt (video_duration s) (Some 2))
            \<and> ffmpeg s = Some fs \<and> video_src s = Some b
            \<and> writeFile eng fs ''input.mp4'' (Bin b) = Some fs1
            \<longrightarrow> fst (applyEffect eng ''fade'' s) = Reply ''Applied the fade effect successfully.''
                \<and> status (snd (applyEffect eng ''fade'' s)) = ''Video is too short for a fade effect.''
                \<and> video_src (snd (applyEffect eng ''fade'' s)) = video_src s)"
proof (intro conjI impI)
  assume "video_duration s = Some d \<and> 0 \<le> x \<and> x < y \<and> y \<le> d"
  with assms show "fst (trimVideo eng (Some x) (Some y) s) = Reply ''Video trimmed successfully.''"
    by (simp add: trimVideo_valid_reply)
next
  assume "effectName \<in> set (validEffects s)"
  with assms show "fst (applyEffect eng effectName s)
      = Reply (''Applied the '' @ effectName @ '' effect successfully.'')"
    by (simp add: applyEffect_valid_reply)
next
  assume a: "video_duration s = Some d \<and> 0 \<le> x \<and> x < y \<and> y \<le> d
            \<and> ffmpeg s = Some fs \<and> video_src s = Some b \<and> (\<forall>fs' cmd. exec eng fs' cmd = None)"
  with assms show "fst (trimVideo eng (Some x) (Some y) s) = Reply ''Video trimmed successfully.''"
    by (simp add: trimVideo_valid_reply)
  let ?s = "s\<lparr>trimStart := Some x, trimEnd := Some y\<rparr>"
  have f: "video_src (state_of (applyTrim eng ?s)) = video_src ?s
       \<and> status (state_of (applyTrim eng ?s)) = ''An error occurred during trimming.''"
    using a by (intro applyTrim_exec_fails [of ?s fs b eng]) simp_all
  have v: "snd (trimVideo eng (Some x) (Some y) s) = state_of (applyTrim eng ?s)"
    using a assms applyTrim_not_Thrown [of eng ?s]
    by (cases "applyTrim eng ?s")
       (auto simp: trimVideo_def js_ge_def js_le_def js_lt_def js_gt_def state_of_def)
  show "status (snd (trimVideo eng (Some x) (Some y) s)) = ''An error occurred during trimming.''"
    using f v by simp
  show "video_src (snd (trimVideo eng (Some x) (Some y) s)) = video_src s"
    using f v by simp
next
  assume a: "''fade'' \<in> set (effectsSelect_options s)
            \<and> (video_duration s = None \<or> js_lt (video_duration s) (Some 2))
            \<and> ffmpeg s = Some fs \<and> video_src s = Some b
            \<and> writeFile eng fs ''input.mp4'' (Bin b) = Some fs1"
  let ?s = "s\<lparr>effectsSelect := select_assign (effectsSelect_options s) ''fade''\<rparr>"
  have sel: "effectsSelect ?s = ''fade''" using a by (simp add: select_assign_def)
  have r: "handleApplyEffect eng ?s
         = Returned (?s\<lparr>status := ''Video is too short for a fade effect.'', ffmpeg := Some fs1,
                      editorButtons_disabled := False\<rparr>)"
    using a sel by (intro fade_short_returns [of ?s fs b eng fs1]) simp_all
  have valid: "''fade'' \<in> set (validEffects s)" using a by (simp add: validEffects_def)
  show "fst (applyEffect eng ''fade'' s) = Reply ''Applied the fade effect successfully.''"
    using assms valid r by (simp add: applyEffect_def)
  show "status (snd (applyEffect eng ''fade'' s)) = ''Video is too short for a fade effect.''"
    using assms valid r by (simp add: applyEffect_def)
  show "video_src (snd (applyEffect eng ''fade'' s)) = video_src s"
    using assms valid r by (simp add: applyEffect_def)
qed

text \<open>The theorem at the one-second video in the open editor, on the broken engine.\<close>

theorem tools_report_success_whatever_the_engine_does_witness:
  "isEditorOpen (demo_open [0])
   \<and> video_duration (demo_open [0]) = Some 1
   \<and> ''grayscale'' \<in> set (validEffects (demo_open [0]))
   \<and> ''fade'' \<in> set (effectsSelect_options (demo_open [0]))
   \<and> js_lt (video_duration (demo_open [0])) (Some 2)
   \<and> ffmpeg (demo_open [0]) = Some []
   \<and> video_src (demo_open [0]) = Some [0]
   \<and> (\<forall>fs' cmd. exec broken_engine fs' cmd = None)
   \<and> writeFile broken_engine [] ''input.mp4'' (Bin [0]) = Some [(''input.mp4'', Bin [0])]
   \<and> fst (trimVideo broken_engine (Some 0) (Some 1) (demo_open [0])) = Reply ''Video trimmed successfully.''
   \<and> status (snd (trimVideo broken_engine (Some 0) (Some 1) (demo_open [0]))) = ''An error occurred during trimming.''
   \<and> video_src (snd (trimVideo broken_engine (Some 0) (Some 1) (demo_open [0]))) = Some [0]
   \<and> fst (applyEffect broken_engine ''grayscale'' (demo_open [0])) = Reply ''Applied the grayscale effect successfully.''
   \<and> status (snd (applyEffect broken_engine ''grayscale'' (demo_open [0]))) = ''An error occurred while applying the effect.''
   \<and> fst (applyEffect broken_engine ''fade'' (demo_open [0])) = Reply ''Applied the fade effect successfully.''
   \<and> status (snd (applyEffect broken_engine ''fade'' (demo_open [0]))) = ''Video is too short for a fade effect.''
   \<and> video_src (snd (applyEffect broken_engine ''fade'' (demo_open [0]))) = Some [0]"
proof -
  have h: "isEditorOpen (demo_open [0])" by code_simp
  have c: "video_duration (demo_open [0]) = Some 1"
    "''grayscale'' \<in> set (validEffects (demo_open [0]))"
    "''fade'' \<in> set (effectsSelect_options (demo_open [0]))"
    "js_lt (video_duration (demo_open [0])) (Some 2)"
    "ffmpeg (demo_open [0]) = Some []"
    "video_src (demo_open [0]) = Some [0]"
    "writeFile broken_engine [] ''input.mp4'' (Bin [0]) = Some [(''input.mp4'', Bin [0])]"
    "status (snd (applyEffect broken_engine ''grayscale'' (demo_open [0]))) = ''An error occurred while applying the effect.''"
    by code_simp+
  have x: "\<forall>fs' cmd. exec broken_engine fs' cmd = None" by (simp add: broken_engine_def)
  from tools_report_success_whatever_the_engine_does [OF h,
      where d = 1 and x = 0 and y = 1 and eng = broken_engine and effectName = "''grayscale''"
        and fs = "[]" and b = "[0]" and ?fs1.0 = "[(''input.mp4'', Bin [0])]"] h c x
  show ?thesis by simp
qed

lemma trimVideo_replies: "\<exists>r. fst (trimVideo eng a b s) = Reply r"
  using applyTrim_returns [of eng "s\<lparr>trimStart := a, trimEnd := b\<rparr>"]
  by (auto simp: trimVideo_def Let_def)

lemma applyEffect_replies: "\<exists>r. fst (applyEffect eng n s) = Reply r"
  using handleApplyEffect_returns
    [of eng "s\<lparr>effectsSelect := select_assign (effectsSelect_options s) n\<rparr>"]
  by (auto simp: applyEffect_def)

lemma dispatch_replies: "\<exists>r. fst (dispatch eng number_string recorded c s) = Reply r"
proof (cases c)
  case (TrimVideo a b)
  then show ?thesis using trimVideo_replies by simp
next
  case (ApplyEffect n)
  then show ?thesis using applyEffect_replies by simp
qed (simp_all add: setPrompt_def setAspectRatio_def setDuration_def setQuality_def
       clickGenerate_def openEditor_def closeEditor_def Let_def)

text \<open>
  C6. Every operation of the dispatcher, on its declared arguments, ends with a reply and
  never raises. When the editor is closed, \<^verbatim>\<open>trimVideo\<close> and \<^verbatim>\<open>applyEffect\<close> reply
  with their sentence and leave the session as it is; so does \<^verbatim>\<open>openEditor\<close> when no
  video is present, \<^verbatim>\<open>trimVideo\<close> when the duration is unknown, the start is not below
  the end, the start is negative or the end is beyond the duration, and \<^verbatim>\<open>applyEffect\<close>
  when the name is not one of the drop-down's effects.
\<close>

theorem dispatcher_never_raises_and_rejections_keep_state:
  "(\<exists>reply. fst (dispatch eng number_string recorded c s) = Reply reply)
   \<and> (\<not> isEditorOpen s \<longrightarrow>
        dispatch eng number_string recorded (TrimVideo a b) s
          = (Reply ''Please open the editor first before trimming.'', s)
        \<and> dispatch eng number_string recorded (ApplyEffect n) s
          = (Reply ''Please open the editor first before applying effects.'', s))
   \<and> (video_src s = None \<longrightarrow>
        dispatch eng number_string recorded OpenEditor s
          = (Reply ''A video must be generated or loaded before you can open the editor.'', s))
   \<and> (isEditorOpen s
        \<and> (video_duration s = None \<or> js_ge a b \<or> js_lt a (Some 0) \<or> js_gt b (video_duration s)) \<longrightarrow>
        dispatch eng number_string recorded (TrimVideo a b) s
          = (Reply (''Invalid trim times. Start time must be less than end time and within the video bounds (0-''
                     @ toFixed1_string (video_duration s) @ ''s).''), s))
   \<and> (isEditorOpen s \<and> n \<notin> set (validEffects s) \<longrightarrow>
        dispatch eng number_string recorded (ApplyEffect n) s
          = (Reply (''Invalid effect. Please choose from: '' @ join '', '' (validEffects s) @ ''.''), s))"
proof (intro conjI impI)
  show "\<exists>reply. fst (dispatch eng number_string recorded c s) = Reply reply"
    by (rule dispatch_replies)
qed (auto simp: trimVideo_def applyEffect_def openEditor_def)

text \<open>
  The theorem at a loaded video with the editor closed, at the session without a video,
  and at the open editor with an end time of 15 on ten seconds and an unknown effect.
\<close>

theorem dispatcher_never_raises_and_rejections_keep_state_witness:
  "\<not> isEditorOpen (demo_loaded ten_frames)
   \<and> fst (dispatch broken_engine (\<lambda>v. ''?'') False (TrimVideo (Some 2) (Some 5)) (demo_loaded ten_frames))
       = Reply ''Please open the editor first before trimming.''
   \<and> snd (dispatch broken_engine (\<lambda>v. ''?'') False (TrimVideo (Some 2) (Some 5)) (demo_loaded ten_frames))
       = demo_loaded ten_frames
   \<and> snd (dispatch broken_engine (\<lambda>v. ''?'') False (ApplyEffect ''sepia'') (demo_loaded ten_frames))
       = demo_loaded ten_frames
   \<and> video_src (initial_session page_effect_options
        :: ((string \<times> nat list fdata) list, nat list) session) = None
   \<and> snd (dispatch broken_engine (\<lambda>v. ''?'') False OpenEditor (initial_session page_effect_options))
       = initial_session page_effect_options
   \<and> isEditorOpen (demo_open ten_frames)
   \<and> js_gt (Some 15) (video_duration (demo_open ten_frames))
   \<and> dispatch broken_engine (\<lambda>v. ''?'') False (TrimVideo (Some 2) (Some 15)) (demo_open ten_frames)
       = (Reply ''Invalid trim times. Start time must be less than end time and within the video bounds (0-10.0s).'',
          demo_open ten_frames)
   \<and> ''sparkle'' \<notin> set (validEffects (demo_open ten_frames))
   \<and> dispatch broken_engine (\<lambda>v. ''?'') False (ApplyEffect ''sparkle'') (demo_open ten_frames)
       = (Reply ''Invalid effect. Please choose from: grayscale, sepia, vignette, fade, slowmo, fastforward.'',
          demo_open ten_frames)
   \<and> (\<exists>reply. fst (dispatch broken_engine (\<lambda>v. ''?'') False (TrimVideo (Some 2) (Some 5)) (demo_open ten_frames))
        = Reply reply)"
proof -
  have c: "\<not> isEditorOpen (demo_loaded ten_frames)"
    "video_src (initial_session page_effect_options
        :: ((string \<times> nat list fdata) list, nat list) session) = None"
    "isEditorOpen (demo_open ten_frames)"
    "js_gt (Some 15) (video_duration (demo_open ten_frames))"
    "''sparkle'' \<notin> set (validEffects (demo_open ten_frames))"
    "toFixed1_string (video_duration (demo_open ten_frames)) = ''10.0''"
    "join '', '' (validEffects (demo_open ten_frames))
       = ''grayscale, sepia, vignette, fade, slowmo, fastforward''"
    by code_simp+
  note t1 = dispatcher_never_raises_and_rejections_keep_state
    [where eng = broken_engine and number_string = "\<lambda>v. ''?''" and recorded = False
       and s = "demo_loaded ten_frames" and a = "Some 2" and b = "Some 5" and n = "''sepia''"
       and c = "TrimVideo (Some 2) (Some 5)"]
  note t2 = dispatcher_never_raises_and_rejections_keep_state
    [where eng = broken_engine and number_string = "\<lambda>v. ''?''" and recorded = False
       and s = "initial_session page_effect_options" and a = "Some 2" and b = "Some 5"
       and n = "''sepia''" and c = OpenEditor]
  note t3 = dispatcher_never_raises_and_rejections_keep_state
    [where eng = broken_engine and number_string = "\<lambda>v. ''?''" and recorded = False
       and s = "demo_open ten_frames" and a = "Some 2" and b = "Some 15" and n = "''sparkle''"
       and c = "TrimVideo (Some 2) (Some 5)"]
  from t1 t2 t3 c show ?thesis by simp
qed

text \<open>
  C9. \<^verbatim>\<open>setQuality\<close> maps \<^verbatim>\<open>standard\<close> to 720p and \<^verbatim>\<open>high\<close> to 1080p, stores the
  result as the resolution of the generation configuration and changes nothing else;
  the declared argument has these two values and no other.
\<close>

theorem setQuality_maps_two_values:
  "setQuality Standard s = (Reply ''Video quality set to: standard (720p)'', s\<lparr>resolution := ''720p''\<rparr>)
   \<and> setQuality High s = (Reply ''Video quality set to: high (1080p)'', s\<lparr>resolution := ''1080p''\<rparr>)
   \<and> dispatch eng number_string recorded (SetQuality q) s = setQuality q s
   \<and> (q = Standard \<or> q = High)"
  by (cases q) (simp_all add: setQuality_def qualityMap_def quality_string_def)

text \<open>The theorem at a loaded session.\<close>

theorem setQuality_maps_two_values_witness:
  "resolution (snd (setQuality Standard (demo_loaded ten_frames))) = ''720p''
   \<and> resolution (snd (setQuality High (demo_loaded ten_frames))) = ''1080p''
   \<and> resolution (snd (dispatch demo_engine (\<lambda>v. ''?'') False (SetQuality High) (demo_loaded ten_frames))) = ''1080p''"
  using setQuality_maps_two_values
    [where s = "demo_loaded ten_frames" and eng = demo_engine and number_string = "\<lambda>v. ''?''"
       and recorded = False and q = High]
  by simp

subsection \<open>C3: merging the bin\<close>

lemma ffmpeg_writeFile_Normal:
  "ffmpeg s = Some fs \<Longrightarrow> writeFile eng fs n d = Some fs'
     \<Longrightarrow> ffmpeg_writeFile eng n d s = Normal (s\<lparr>ffmpeg := Some fs'\<rparr>)"
  by (simp add: ffmpeg_writeFile_def)

lemma ffmpeg_writeFile_Thrown:
  "ffmpeg s = Some fs \<Longrightarrow> writeFile eng fs n d = None
     \<Longrightarrow> ffmpeg_writeFile eng n d s = Thrown EngineError s"
  by (simp add: ffmpeg_writeFile_def)

lemma merge_write_inputs_Normal:
  assumes "ffmpeg s = Some fs"
    and "write_all eng (map (\<lambda>j. (input_name j, Bin (blob (bin ! j)))) [i..<length bin]) fs = Some fs'"
  shows "merge_write_inputs eng bin i c s
         = Normal (c @ concat (map list_line [i..<length bin]), s\<lparr>ffmpeg := Some fs'\<rparr>)"
  using assms
proof (induction eng bin i c s arbitrary: fs rule: merge_write_inputs.induct)
  case (1 eng bin i c s)
  show ?case
  proof (cases "i < length bin")
    case False
    with "1.prems" show ?thesis by (simp add: merge_write_inputs.simps)
  next
    case True
    then have u: "[i..<length bin] = i # [Suc i..<length bin]" by (simp add: upt_conv_Cons)
    from "1.prems"(2) u obtain fs1 where
      w: "writeFile eng fs (input_name i) (Bin (blob (bin ! i))) = Some fs1"
      and r: "write_all eng (map (\<lambda>j. (input_name j, Bin (blob (bin ! j)))) [Suc i..<length bin]) fs1 = Some fs'"
      by (auto split: option.splits)
    have n: "ffmpeg_writeFile eng (input_name i) (Bin (blob (bin ! i))) s = Normal (s\<lparr>ffmpeg := Some fs1\<rparr>)"
      using "1.prems"(1) w by (rule ffmpeg_writeFile_Normal)
    have "merge_write_inputs eng bin (Suc i) (c @ list_line i) (s\<lparr>ffmpeg := Some fs1\<rparr>)
          = Normal ((c @ list_line i) @ concat (map list_line [Suc i..<length bin]),
                    s\<lparr>ffmpeg := Some fs1\<rparr>\<lparr>ffmpeg := Some fs'\<rparr>)"
      using "1.IH" [OF True n _ r] by simp
    then show ?thesis
      using True n u by (subst merge_write_inputs.simps) simp
  qed
qed

lemma merge_write_inputs_Thrown:
  assumes "ffmpeg s = Some fs"
    and "write_all eng (map (\<lambda>j. (input_name j, Bin (blob (bin ! j)))) [i..<length bin]) fs = None"
  shows "\<exists>e c' fs'. merge_write_inputs eng bin i c s = Thrown e (c', s\<lparr>ffmpeg := Some fs'\<rparr>)"
  using assms
proof (induction eng bin i c s arbitrary: fs rule: merge_write_inputs.induct)
  case (1 eng bin i c s)
  show ?case
  proof (cases "i < length bin")
    case False
    with "1.prems" show ?thesis by simp
  next
    case True
    then have u: "[i..<length bin] = i # [Suc i..<length bin]" by (simp add: upt_conv_Cons)
    show ?thesis
    proof (cases "writeFile eng fs (input_name i) (Bin (blob (bin ! i)))")
      case None
      have "ffmpeg_writeFile eng (input_name i) (Bin (blob (bin ! i))) s = Thrown EngineError s"
        using "1.prems"(1) None by (rule ffmpeg_writeFile_Thrown)
      moreover have "s = s\<lparr>ffmpeg := Some fs\<rparr>" using "1.prems"(1) by simp
      ultimately show ?thesis
        using True by (subst merge_write_inputs.simps) (auto intro: exI [of _ fs])
    next
      case (Some fs1)
      have n: "ffmpeg_writeFile eng (input_name i) (Bin (blob (bin ! i))) s = Normal (s\<lparr>ffmpeg := Some fs1\<rparr>)"
        using "1.prems"(1) Some by (rule ffmpeg_writeFile_Normal)
      from "1.prems"(2) u Some have
        r: "write_all eng (map (\<lambda>j. (input_name j, Bin (blob (bin ! j)))) [Suc i..<length bin]) fs1 = None"
        by simp
      from "1.IH" [OF True n _ r] obtain e c' fs' where
        "merge_write_inputs eng bin (Suc i) (c @ list_line i) (s\<lparr>ffmpeg := Some fs1\<rparr>)
           = Thrown e (c', s\<lparr>ffmpeg := Some fs1\<rparr>\<lparr>ffmpeg := Some fs'\<rparr>)"
        by auto
      then show ?thesis
        using True n by (subst merge_write_inputs.simps) auto
    qed
  qed
qed

lemma merge_inputs_upt:
  "map (\<lambda>j. (input_name j, Bin (blob (bin ! j)))) [0..<length bin] = merge_inputs bin"
  unfolding merge_inputs_def input_name_def
  by (rule nth_equalityI) (simp_all add: nth_enumerate_eq)

lemma list_file_lines: "concat (map list_line [0..<n]) = list_file n"
  unfolding list_file_def
  by (rule arg_cong [where f = concat]) (simp add: list_line_def input_name_def)

lemma merge_body_success:
  assumes "ffmpeg s = Some fs" "merge_run eng fs (mergeBin s) = Some (fs3, out)"
  shows "merge_body eng s
         = Normal (s\<lparr>ffmpeg := Some fs3, video_src := Some out, video_duration := None,
                    status := ''Merge successful!'', mergeBin := [],
                    mergeVideosButton_disabled := True\<rparr>)"
proof -
  from assms(2) obtain fs1 fs2 where
    w: "write_all eng (merge_inputs (mergeBin s)) fs = Some fs1"
    and l: "writeFile eng fs1 ''mylist.txt'' (Txt (list_file (length (mergeBin s)))) = Some fs2"
    and x: "exec eng fs2 concat_command = Some fs3"
    and r: "readFile eng fs3 ''output.mp4'' = Some out"
    by (auto simp: merge_run_def concat_command_def split: option.splits)
  have "merge_write_inputs eng (mergeBin s) 0 [] s
        = Normal ([] @ concat (map list_line [0..<length (mergeBin s)]), s\<lparr>ffmpeg := Some fs1\<rparr>)"
    using assms(1) w by (intro merge_write_inputs_Normal) (simp_all add: merge_inputs_upt)
  then show ?thesis
    using l x r
    by (simp add: merge_body_def list_file_lines and_then_def ffmpeg_writeFile_def ffmpeg_exec_def
        ffmpeg_readFile_def set_video_src_def renderMergeBin_def)
qed

lemma merge_body_failure:
  assumes "ffmpeg s = Some fs" "merge_run eng fs (mergeBin s) = None"
  shows "\<exists>e fs'. merge_body eng s = Thrown e (s\<lparr>ffmpeg := Some fs'\<rparr>)"
proof (cases "write_all eng (merge_inputs (mergeBin s)) fs")
  case None
  then obtain e c' fs' where
    "merge_write_inputs eng (mergeBin s) 0 [] s = Thrown e (c', s\<lparr>ffmpeg := Some fs'\<rparr>)"
    using merge_write_inputs_Thrown [OF assms(1), of eng "mergeBin s" 0 "[]"]
    by (auto simp: merge_inputs_upt)
  then show ?thesis by (auto simp: merge_body_def)
next
  case (Some fs1)
  have n: "merge_write_inputs eng (mergeBin s) 0 [] s
        = Normal ([] @ concat (map list_line [0..<length (mergeBin s)]), s\<lparr>ffmpeg := Some fs1\<rparr>)"
    using assms(1) Some by (intro merge_write_inputs_Normal) (simp_all add: merge_inputs_upt)
  show ?thesis
  proof (cases "writeFile eng fs1 ''mylist.txt'' (Txt (list_file (length (mergeBin s))))")
    case None
    with n show ?thesis
      by (auto simp: merge_body_def list_file_lines and_then_def ffmpeg_writeFile_def)
  next
    case (Some fs2)
    note l = Some
    show ?thesis
    proof (cases "exec eng fs2 concat_command")
      case None
      with n l show ?thesis
        by (auto simp: merge_body_def list_file_lines and_then_def ffmpeg_writeFile_def ffmpeg_exec_def)
    next
      case (Some fs3)
      with assms(2) \<open>write_all eng (merge_inputs (mergeBin s)) fs = Some fs1\<close> l
      have "readFile eng fs3 ''output.mp4'' = None"
        by (auto simp: merge_run_def concat_command_def split: option.splits)
      with n l Some show ?thesis
        by (auto simp: merge_body_def list_file_lines and_then_def ffmpeg_writeFile_def ffmpeg_exec_def
            ffmpeg_readFile_def)
    qed
  qed
qed

lemma string_of_nat_digit: "n < 10 \<Longrightarrow> string_of_nat n = [digit_char n]"
  by (subst string_of_nat.simps) simp

lemma string_of_nat_more:
  "\<not> n < 10 \<Longrightarrow> string_of_nat n = string_of_nat (n div 10) @ [digit_char (n mod 10)]"
  by (subst string_of_nat.simps) simp

lemma string_of_nat_nonempty: "string_of_nat n \<noteq> []"
  by (subst string_of_nat.simps) simp

lemma digit_char_inj:
  assumes "d < 10" "e < 10" "digit_char d = digit_char e"
  shows "d = e"
proof -
  have "distinct ''0123456789''" by simp
  moreover have "d < length ''0123456789''" "e < length ''0123456789''" using assms by simp_all
  ultimately show ?thesis
    using assms(3) unfolding digit_char_def by (simp only: nth_eq_iff_index_eq)
qed

lemma string_of_nat_inj: "string_of_nat n = string_of_nat m \<Longrightarrow> n = m"
proof (induction n arbitrary: m rule: string_of_nat.induct)
  case (1 n)
  show ?case
  proof (cases "n < 10")
    case True
    note n = True
    show ?thesis
    proof (cases "m < 10")
      case True
      with n "1.prems" have "digit_char n = digit_char m" by (simp add: string_of_nat_digit)
      with n True show ?thesis by (rule digit_char_inj)
    next
      case False
      with n "1.prems" have "string_of_nat (m div 10) = []"
        by (simp add: string_of_nat_digit string_of_nat_more)
      then show ?thesis by (simp add: string_of_nat_nonempty)
    qed
  next
    case False
    note n = False
    show ?thesis
    proof (cases "m < 10")
      case True
      with n "1.prems" have "string_of_nat (n div 10) = []"
        by (simp add: string_of_nat_digit string_of_nat_more)
      then show ?thesis by (simp add: string_of_nat_nonempty)
    next
      case False
      with n "1.prems" have e: "string_of_nat (n div 10) = string_of_nat (m div 10)"
        "digit_char (n mod 10) = digit_char (m mod 10)"
        by (simp_all add: string_of_nat_more)
      from "1.IH" [OF n e(1)] have d: "n div 10 = m div 10" .
      have "n mod 10 = m mod 10" by (rule digit_char_inj [OF _ _ e(2)]) simp_all
      with d show ?thesis by (metis div_mult_mod_eq)
    qed
  qed
qed

text \<open>
  C3. With fewer than two clips in the bin the merge handler reports "Add at least 2
  videos to merge." and changes nothing else. With two or more clips and the engine
  loaded, the handler asks the engine for the concatenation of the clips in bin order:
  if the engine accepts clip \<open>i\<close> of the bin as \<^verbatim>\<open>input<i>.mp4\<close>, for all clips in bin order,
  then the list file \<^verbatim>\<open>mylist.txt\<close> with the lines \<^verbatim>\<open>file 'input<i>.mp4'\<close> in that order,
  then the command \<^verbatim>\<open>-f concat -safe 0 -i mylist.txt -c copy output.mp4\<close>, and then yields
  \<^verbatim>\<open>output.mp4\<close>, that output becomes the video and the bin is emptied; if any call of
  that run fails (\<open>merge_run\<close> is \<open>None\<close>), the handler reports the failure and neither
  the bin nor the video changes (what the engine holds may). Without a loaded engine the
  handler reports as for a short bin and changes nothing else. The bin's order is the
  order of insertion: \<open>addToMergeBin\<close> appends. Different clips are staged under
  different names.
\<close>

theorem merge_needs_two_clips_and_is_all_or_nothing:
  "(length (mergeBin s) < 2 \<longrightarrow>
      mergeVideosButton_onclick eng s = Returned (s\<lparr>status := ''Add at least 2 videos to merge.''\<rparr>))
   \<and> (2 \<le> length (mergeBin s) \<and> ffmpeg s = Some fs
        \<and> write_all eng
            (map (\<lambda>(i, c). (''input'' @ string_of_nat i @ ''.mp4'', Bin (blob c)))
               (enumerate 0 (mergeBin s))) fs = Some fs1
        \<and> writeFile eng fs1 ''mylist.txt''
            (Txt (concat (map (\<lambda>i. ''file '' @ [CHR 0x27] @ ''input'' @ string_of_nat i @ ''.mp4''
                                     @ [CHR 0x27, CHR 0x0A]) [0..<length (mergeBin s)]))) = Some fs2
        \<and> exec eng fs2 [Lit ''-f'', Lit ''concat'', Lit ''-safe'', Lit ''0'', Lit ''-i'',
                        Lit ''mylist.txt'', Lit ''-c'', Lit ''copy'', Lit ''output.mp4''] = Some fs3
        \<and> readFile eng fs3 ''output.mp4'' = Some out \<longrightarrow>
      merge_run eng fs (mergeBin s) = Some (fs3, out)
      \<and> mergeVideosButton_onclick eng s
        = Normal (s\<lparr>ffmpeg := Some fs3, video_src := Some out, video_duration := None,
                   status := ''Merge successful!'', mergeBin := [],
                   mergeVideosButton_disabled := False\<rparr>))
   \<and> (2 \<le> length (mergeBin s) \<and> ffmpeg s = Some fs \<and> merge_run eng fs (mergeBin s) = None \<longrightarrow>
      (\<exists>fs'. mergeVideosButton_onclick eng s
          = Normal (s\<lparr>ffmpeg := Some fs', status := ''An error occurred during merging.'',
                     mergeVideosButton_disabled := False\<rparr>)))
   \<and> (2 \<le> length (mergeBin s) \<and> ffmpeg s = None \<longrightarrow>
      mergeVideosButton_onclick eng s = Returned (s\<lparr>status := ''Add at least 2 videos to merge.''\<rparr>))
   \<and> mergeBin (addToMergeBin c s) = mergeBin s @ [c]
   \<and> (''input'' @ string_of_nat i @ ''.mp4'' = ''input'' @ string_of_nat j @ ''.mp4'' \<longrightarrow> i = j)"
proof (intro conjI impI)
  assume "length (mergeBin s) < 2"
  then show "mergeVideosButton_onclick eng s = Returned (s\<lparr>status := ''Add at least 2 videos to merge.''\<rparr>)"
    by (simp add: mergeVideosButton_onclick_def)
next
  assume a: "2 \<le> length (mergeBin s) \<and> ffmpeg s = Some fs
        \<and> write_all eng
            (map (\<lambda>(i, c). (''input'' @ string_of_nat i @ ''.mp4'', Bin (blob c)))
               (enumerate 0 (mergeBin s))) fs = Some fs1
        \<and> writeFile eng fs1 ''mylist.txt''
            (Txt (concat (map (\<lambda>i. ''file '' @ [CHR 0x27] @ ''input'' @ string_of_nat i @ ''.mp4''
                                     @ [CHR 0x27, CHR 0x0A]) [0..<length (mergeBin s)]))) = Some fs2
        \<and> exec eng fs2 [Lit ''-f'', Lit ''concat'', Lit ''-safe'', Lit ''0'', Lit ''-i'',
                        Lit ''mylist.txt'', Lit ''-c'', Lit ''copy'', Lit ''output.mp4''] = Some fs3
        \<and> readFile eng fs3 ''output.mp4'' = Some out"
  then show m: "merge_run eng fs (mergeBin s) = Some (fs3, out)"
    by (simp add: merge_run_def merge_inputs_def list_file_def)
  let ?s = "s\<lparr>status := ''Merging videos... This may take a moment.'', mergeVideosButton_disabled := True\<rparr>"
  have "merge_body eng ?s
         = Normal (?s\<lparr>ffmpeg := Some fs3, video_src := Some out, video_duration := None,
                    status := ''Merge successful!'', mergeBin := [],
                    mergeVideosButton_disabled := True\<rparr>)"
    using a m by (intro merge_body_success [of ?s fs]) simp_all
  with a show "mergeVideosButton_onclick eng s
        = Normal (s\<lparr>ffmpeg := Some fs3, video_src := Some out, video_duration := None,
                   status := ''Merge successful!'', mergeBin := [],
                   mergeVideosButton_disabled := False\<rparr>)"
    by (simp add: mergeVideosButton_onclick_def try_catch_finally_def)
next
  assume a: "2 \<le> length (mergeBin s) \<and> ffmpeg s = Some fs \<and> merge_run eng fs (mergeBin s) = None"
  let ?s = "s\<lparr>status := ''Merging videos... This may take a moment.'', mergeVideosButton_disabled := True\<rparr>"
  obtain e fs' where "merge_body eng ?s = Thrown e (?s\<lparr>ffmpeg := Some fs'\<rparr>)"
    using a merge_body_failure [of ?s fs eng] by auto
  with a have "mergeVideosButton_onclick eng s
          = Normal (s\<lparr>ffmpeg := Some fs', status := ''An error occurred during merging.'',
                     mergeVideosButton_disabled := False\<rparr>)"
    by (simp add: mergeVideosButton_onclick_def try_catch_finally_def)
  then show "\<exists>fs'. mergeVideosButton_onclick eng s
          = Normal (s\<lparr>ffmpeg := Some fs', status := ''An error occurred during merging.'',
                     mergeVideosButton_disabled := False\<rparr>)" by blast
next
  assume "2 \<le> length (mergeBin s) \<and> ffmpeg s = None"
  then show "mergeVideosButton_onclick eng s = Returned (s\<lparr>status := ''Add at least 2 videos to merge.''\<rparr>)"
    by (simp add: mergeVideosButton_onclick_def)
next
  show "mergeBin (addToMergeBin c s) = mergeBin s @ [c]"
    by (simp add: addToMergeBin_def renderMergeBin_def)
next
  assume "''input'' @ string_of_nat i @ ''.mp4'' = ''input'' @ string_of_nat j @ ''.mp4''"
  then have "string_of_nat i = string_of_nat j" by simp
  then show "i = j" by (rule string_of_nat_inj)
qed

text \<open>
  The theorem at a bin of one clip, and at the bin of a four-frame and a six-frame clip on
  the reference engine and on the broken engine. On the reference engine the two clips
  are staged as \<^verbatim>\<open>input0.mp4\<close> and \<^verbatim>\<open>input1.mp4\<close>, the list file names them in that
  order, and the video becomes the ten frames in bin order.
\<close>

theorem merge_needs_two_clips_and_is_all_or_nothing_witness:
  "length (mergeBin demo_one_clip) < 2
   \<and> mergeVideosButton_onclick demo_engine demo_one_clip
       = Returned (demo_one_clip\<lparr>status := ''Add at least 2 videos to merge.''\<rparr>)
   \<and> map blob (mergeBin demo_bin) = [[10, 11, 12, 13], [20, 21, 22, 23, 24, 25]]
   \<and> 2 \<le> length (mergeBin demo_bin)
   \<and> ffmpeg demo_bin = Some []
   \<and> write_all demo_engine
       (map (\<lambda>(i, c). (''input'' @ string_of_nat i @ ''.mp4'', Bin (blob c)))
          (enumerate 0 (mergeBin demo_bin))) [] = Some demo_staged
   \<and> concat (map (\<lambda>i. ''file '' @ [CHR 0x27] @ ''input'' @ string_of_nat i @ ''.mp4''
                        @ [CHR 0x27, CHR 0x0A]) [0..<length (mergeBin demo_bin)]) = demo_list_file
   \<and> writeFile demo_engine demo_staged ''mylist.txt'' (Txt demo_list_file)
       = Some ((''mylist.txt'', Txt demo_list_file) # demo_staged)
   \<and> exec demo_engine ((''mylist.txt'', Txt demo_list_file) # demo_staged)
       [Lit ''-f'', Lit ''concat'', Lit ''-safe'', Lit ''0'', Lit ''-i'', Lit ''mylist.txt'',
        Lit ''-c'', Lit ''copy'', Lit ''output.mp4''] = Some demo_merged
   \<and> readFile demo_engine demo_merged ''output.mp4'' = Some [10, 11, 12, 13, 20, 21, 22, 23, 24, 25]
   \<and> mergeVideosButton_onclick demo_engine demo_bin
       = Normal (demo_bin\<lparr>ffmpeg := Some demo_merged,
                  video_src := Some [10, 11, 12, 13, 20, 21, 22, 23, 24, 25], video_duration := None,
                  status := ''Merge successful!'', mergeBin := [],
                  mergeVideosButton_disabled := False\<rparr>)
   \<and> merge_run broken_engine [] (mergeBin demo_bin) = None
   \<and> mergeBin (state_of (mergeVideosButton_onclick broken_engine demo_bin)) = mergeBin demo_bin
   \<and> video_src (state_of (mergeVideosButton_onclick broken_engine demo_bin)) = video_src demo_bin
   \<and> status (state_of (mergeVideosButton_onclick broken_engine demo_bin)) = ''An error occurred during merging.''"
proof -
  have c: "length (mergeBin demo_one_clip) < 2"
    "map blob (mergeBin demo_bin) = [[10, 11, 12, 13], [20, 21, 22, 23, 24, 25]]"
    "2 \<le> length (mergeBin demo_bin)"
    "ffmpeg demo_bin = Some []"
    "merge_run broken_engine [] (mergeBin demo_bin) = None"
    by code_simp+
  have r: "write_all demo_engine
       (map (\<lambda>(i, c). (''input'' @ string_of_nat i @ ''.mp4'', Bin (blob c)))
          (enumerate 0 (mergeBin demo_bin))) [] = Some demo_staged"
    "concat (map (\<lambda>i. ''file '' @ [CHR 0x27] @ ''input'' @ string_of_nat i @ ''.mp4''
                        @ [CHR 0x27, CHR 0x0A]) [0..<length (mergeBin demo_bin)]) = demo_list_file"
    "writeFile demo_engine demo_staged ''mylist.txt'' (Txt demo_list_file)
       = Some ((''mylist.txt'', Txt demo_list_file) # demo_staged)"
    "exec demo_engine ((''mylist.txt'', Txt demo_list_file) # demo_staged)
       [Lit ''-f'', Lit ''concat'', Lit ''-safe'', Lit ''0'', Lit ''-i'', Lit ''mylist.txt'',
        Lit ''-c'', Lit ''copy'', Lit ''output.mp4''] = Some demo_merged"
    "readFile demo_engine demo_merged ''output.mp4'' = Some [10, 11, 12, 13, 20, 21, 22, 23, 24, 25]"
    by code_simp+
  note t1 = merge_needs_two_clips_and_is_all_or_nothing
    [where s = demo_one_clip and eng = demo_engine]
  note t2 = merge_needs_two_clips_and_is_all_or_nothing
    [where s = demo_bin and eng = demo_engine and fs = "[]" and ?fs1.0 = demo_staged
       and ?fs2.0 = "(''mylist.txt'', Txt demo_list_file) # demo_staged"
       and ?fs3.0 = demo_merged
       and out = "[10, 11, 12, 13, 20, 21, 22, 23, 24, 25]"]
  note t3 = merge_needs_two_clips_and_is_all_or_nothing
    [where s = demo_bin and eng = broken_engine and fs = "[]"]
  have a: "mergeVideosButton_onclick demo_engine demo_one_clip
       = Returned (demo_one_clip\<lparr>status := ''Add at least 2 videos to merge.''\<rparr>)"
    using t1 c(1) by blast
  have b: "mergeVideosButton_onclick demo_engine demo_bin
        = Normal (demo_bin\<lparr>ffmpeg := Some demo_merged,
                   video_src := Some [10, 11, 12, 13, 20, 21, 22, 23, 24, 25], video_duration := None,
                   status := ''Merge successful!'', mergeBin := [],
                   mergeVideosButton_disabled := False\<rparr>)"
    using t2 c(3,4) r(1,3,4,5) unfolding r(2) by blast
  obtain fs' where d: "mergeVideosButton_onclick broken_engine demo_bin
          = Normal (demo_bin\<lparr>ffmpeg := Some fs', status := ''An error occurred during merging.'',
                     mergeVideosButton_disabled := False\<rparr>)"
    using t3 c(3,4,5) by blast
  show ?thesis
    using c a r by (simp add: b d state_of_def)
qed

subsection \<open>C10: the recording limit\<close>

lemma recording_inv_initial: "recording_inv initial_recording"
  by (simp add: recording_inv_def initial_recording_def MAX_RECORDING_DURATION_def)

lemma recording_inv_step: "recording_inv r \<Longrightarrow> recording_inv (rec_step r e)"
proof (cases e)
  case (RecordClick granted)
  assume "recording_inv r"
  then show ?thesis
    using RecordClick
    by (auto simp: recording_inv_def recordButton_onclick_def stopRecording_def startRecording_def
        MAX_RECORDING_DURATION_def)
next
  case TimerTick
  assume "recording_inv r"
  then show ?thesis
    using TimerTick
    by (auto simp: recording_inv_def timer_callback_def stopRecording_def Let_def
        MAX_RECORDING_DURATION_def WARNING_START_TIME_def)
next
  case (UploadChange file_chosen)
  assume "recording_inv r"
  then show ?thesis
    using UploadChange
    by (auto simp: recording_inv_def upload_onchange_def resetRecordingState_def)
next
  case RecorderStopped
  assume "recording_inv r"
  then show ?thesis
    using RecorderStopped by (auto simp: recording_inv_def mediaRecorder_onstop_def)
qed

lemma recording_inv_run: "recording_inv r \<Longrightarrow> recording_inv (foldl rec_step r events)"
  by (induction events arbitrary: r) (simp_all add: recording_inv_step)

lemma replicate_snoc: "replicate (Suc k) x = replicate k x @ [x]"
  by (simp add: replicate_append_same)

lemma ticks_below_limit:
  "n < MAX_RECORDING_DURATION \<Longrightarrow>
     isVideoRecording (foldl rec_step (startRecording True r) (replicate n TimerTick))
     \<and> recordingTimerInterval (foldl rec_step (startRecording True r) (replicate n TimerTick))
     \<and> mediaRecorder_present (foldl rec_step (startRecording True r) (replicate n TimerTick))
     \<and> recordingSeconds (foldl rec_step (startRecording True r) (replicate n TimerTick)) = n"
proof (induction n)
  case 0
  show ?case by (simp add: startRecording_def)
next
  case (Suc n)
  then have ih: "isVideoRecording (foldl rec_step (startRecording True r) (replicate n TimerTick))
     \<and> recordingTimerInterval (foldl rec_step (startRecording True r) (replicate n TimerTick))
     \<and> mediaRecorder_present (foldl rec_step (startRecording True r) (replicate n TimerTick))
     \<and> recordingSeconds (foldl rec_step (startRecording True r) (replicate n TimerTick)) = n"
    by simp
  show ?case
    unfolding replicate_snoc foldl_append
    using ih Suc.prems
    by (simp add: timer_callback_def Let_def stopRecording_def MAX_RECORDING_DURATION_def
        WARNING_START_TIME_def)
qed

lemma ticks_at_limit:
  "\<not> isVideoRecording (foldl rec_step (startRecording True r) (replicate MAX_RECORDING_DURATION TimerTick))
   \<and> \<not> recordingTimerInterval (foldl rec_step (startRecording True r) (replicate MAX_RECORDING_DURATION TimerTick))
   \<and> recordingSeconds (foldl rec_step (startRecording True r) (replicate MAX_RECORDING_DURATION TimerTick))
       = MAX_RECORDING_DURATION"
proof -
  have m: "MAX_RECORDING_DURATION = Suc 29" by (simp add: MAX_RECORDING_DURATION_def)
  have b: "(29::nat) < MAX_RECORDING_DURATION" by (simp add: MAX_RECORDING_DURATION_def)
  note t = ticks_below_limit [OF b, of r]
  show ?thesis
    unfolding m replicate_snoc foldl_append
    using t
    by (simp add: timer_callback_def Let_def stopRecording_def WARNING_START_TIME_def
        MAX_RECORDING_DURATION_def)
qed

text \<open>
  What the timer does achieve: after any sequence of events an active recording has
  counted fewer than 30 seconds; and a recording that is started and then only ticked is
  stopped by its thirtieth tick.
\<close>

lemma recording_counts_below_limit_and_ticks_stop_it:
  "(isVideoRecording (foldl rec_step initial_recording events)
      \<longrightarrow> recordingSeconds (foldl rec_step initial_recording events) < MAX_RECORDING_DURATION)
   \<and> (n < MAX_RECORDING_DURATION
      \<longrightarrow> isVideoRecording (foldl rec_step (startRecording True r) (replicate n TimerTick))
         \<and> recordingSeconds (foldl rec_step (startRecording True r) (replicate n TimerTick)) = n)
   \<and> \<not> isVideoRecording (foldl rec_step (startRecording True r) (replicate MAX_RECORDING_DURATION TimerTick))"
proof -
  have "recording_inv (foldl rec_step initial_recording events)"
    by (rule recording_inv_run [OF recording_inv_initial])
  then show ?thesis
    using ticks_below_limit [of n r] ticks_at_limit [of r]
    by (simp add: recording_inv_def MAX_RECORDING_DURATION_def)
qed

text \<open>
  C10 on the code, with time counted in ticks of the one-second timer. A recording is
  started and five seconds are counted; then an image is chosen in the upload, whose
  listener clears the timer and leaves the recording active. No tick arrives any more:
  after forty further seconds the recording is still active with five seconds counted,
  and nothing stops it. Without the upload the thirtieth tick stops the recording.
\<close>

theorem upload_while_recording_disarms_the_limit:
  "isVideoRecording
     (foldl rec_step initial_recording
        (RecordClick True # replicate 5 TimerTick @ UploadChange True # replicate 40 TimerTick))
   \<and> \<not> recordingTimerInterval
     (foldl rec_step initial_recording
        (RecordClick True # replicate 5 TimerTick @ UploadChange True # replicate 40 TimerTick))
   \<and> recordingSeconds
     (foldl rec_step initial_recording
        (RecordClick True # replicate 5 TimerTick @ UploadChange True # replicate 40 TimerTick)) = 5
   \<and> isVideoRecording
     (foldl rec_step initial_recording (RecordClick True # replicate 29 TimerTick))
   \<and> \<not> isVideoRecording
     (foldl rec_step initial_recording (RecordClick True # replicate 30 TimerTick))"
  by code_simp

subsection \<open>C2: the videos of a completed generation\<close>

lemma foldl_load_generated_last:
  assumes "order \<noteq> []" "last order < length vs" "fetch (uri (vs ! last order)) = Some b"
  shows "video_src (foldl (load_generated fetch vs) s order) = Some b"
proof -
  have "order = butlast order @ [last order]" using assms(1) by simp
  then have "foldl (load_generated fetch vs) s order
      = load_generated fetch vs (foldl (load_generated fetch vs) s (butlast order)) (last order)"
    by (metis foldl_Cons foldl_Nil foldl_append)
  then show ?thesis using assms(2,3) by (simp add: load_generated_def set_video_src_def)
qed

text \<open>
  C2, as amended. A completed operation with no videos (an undefined or an empty list)
  makes \<^verbatim>\<open>generateContent\<close> throw the error "No videos generated". With one or more
  videos it does not throw; every video is downloaded and assigned to the player when its
  download arrives, so the active video is the one whose download arrived last; when the
  downloads arrive in the order of the response, that is the last video of the response.
\<close>

theorem generated_videos_last_arrival_wins:
  "(videos = None \<or> videos = Some [] \<longrightarrow>
      generateContent_completed fetch videos order s = Thrown (Error ''No videos generated'') s)
   \<and> (vs \<noteq> [] \<and> order \<noteq> [] \<and> last order < length vs \<and> fetch (uri (vs ! last order)) = Some b \<longrightarrow>
      generateContent_completed fetch (Some vs) order s = Normal (foldl (load_generated fetch vs) s order)
      \<and> video_src (state_of (generateContent_completed fetch (Some vs) order s)) = Some b)
   \<and> (vs \<noteq> [] \<and> fetch (uri (last vs)) = Some b \<longrightarrow>
      video_src (state_of (generateContent_completed fetch (Some vs) [0..<length vs] s)) = Some b)"
proof (intro conjI impI)
  assume "videos = None \<or> videos = Some []"
  then show "generateContent_completed fetch videos order s = Thrown (Error ''No videos generated'') s"
    by (auto simp: generateContent_completed_def)
next
  assume a: "vs \<noteq> [] \<and> order \<noteq> [] \<and> last order < length vs \<and> fetch (uri (vs ! last order)) = Some b"
  then show g: "generateContent_completed fetch (Some vs) order s
      = Normal (foldl (load_generated fetch vs) s order)"
    by (simp add: generateContent_completed_def)
  show "video_src (state_of (generateContent_completed fetch (Some vs) order s)) = Some b"
    using a g foldl_load_generated_last [of order vs fetch b s] by (simp add: state_of_def)
next
  assume a: "vs \<noteq> [] \<and> fetch (uri (last vs)) = Some b"
  then have n: "0 < length vs" by simp
  then have l: "last [0..<length vs] = length vs - 1" by simp
  have v: "vs ! (length vs - 1) = last vs" using a by (simp add: last_conv_nth)
  have "video_src (foldl (load_generated fetch vs) s [0..<length vs]) = Some b"
    using n a l v by (intro foldl_load_generated_last) simp_all
  then show "video_src (state_of (generateContent_completed fetch (Some vs) [0..<length vs] s)) = Some b"
    using a by (simp add: generateContent_completed_def state_of_def)
qed

text \<open>
  The theorem at the empty and the undefined list, and at the response with two videos,
  with the downloads arriving in reverse order and in order.
\<close>

theorem generated_videos_last_arrival_wins_witness:
  "generateContent_completed Some (Some []) [] demo_no_video
     = Thrown (Error ''No videos generated'') demo_no_video
   \<and> generateContent_completed Some None [] demo_no_video
     = Thrown (Error ''No videos generated'') demo_no_video
   \<and> two_videos \<noteq> [] \<and> [1, 0] \<noteq> ([] :: nat list) \<and> last [1, 0] < length two_videos
   \<and> Some (uri (two_videos ! last [1, 0])) = Some ''first''
   \<and> video_src (state_of (generateContent_completed Some (Some two_videos) [1, 0] demo_no_video)) = Some ''first''
   \<and> Some (uri (last two_videos)) = Some ''second''
   \<and> video_src (state_of (generateContent_completed Some (Some two_videos) [0..<length two_videos] demo_no_video))
       = Some ''second''"
proof -
  have c: "two_videos \<noteq> []" "[1, 0] \<noteq> ([] :: nat list)" "last [1, 0] < length two_videos"
    "Some (uri (two_videos ! last [1, 0])) = Some ''first''"
    "Some (uri (last two_videos)) = Some ''second''"
    by code_simp+
  note t1 = generated_videos_last_arrival_wins
    [where videos = "Some []" and fetch = Some and order = "[]" and s = demo_no_video
       and vs = two_videos and b = "''second''"]
  note t2 = generated_videos_last_arrival_wins
    [where videos = None and fetch = Some and order = "[1, 0]" and s = demo_no_video
       and vs = two_videos and b = "''first''"]
  have a: "generateContent_completed Some (Some []) [] demo_no_video
     = Thrown (Error ''No videos generated'') demo_no_video" using t1 by blast
  have b: "video_src (state_of (generateContent_completed Some (Some two_videos) [0..<length two_videos] demo_no_video))
       = Some ''second''" using t1 c by blast
  have d: "generateContent_completed Some None [] demo_no_video
     = Thrown (Error ''No videos generated'') demo_no_video"
    using generated_videos_last_arrival_wins
      [where videos = None and fetch = Some and order = "[]" and s = demo_no_video] by blast
  have e: "video_src (state_of (generateContent_completed Some (Some two_videos) [1, 0] demo_no_video)) = Some ''first''"
    using t2 c by blast
  from a b c d e show ?thesis by blast
qed

text \<open>
  C2 as stated fails: the response holds two videos whose downloads arrive in order, and
  the active video is the second one, not the first.
\<close>

theorem first_video_not_the_one_used_counterexample:
  "length two_videos = 2
   \<and> Some (uri (two_videos ! 0)) = Some ''first''
   \<and> generateContent_completed Some (Some two_videos) [0, 1] demo_no_video
       = Normal (state_of (generateContent_completed Some (Some two_videos) [0, 1] demo_no_video))
   \<and> video_src (state_of (generateContent_completed Some (Some two_videos) [0, 1] demo_no_video))
       = Some ''second''
   \<and> video_src (state_of (generateContent_completed Some (Some two_videos) [0, 1] demo_no_video))
       \<noteq> Some (uri (two_videos ! 0))"
  by code_simp

subsection \<open>C5: the trim range under its four mutations\<close>

lemma tenths_bounds: "of_int (tenths x) \<le> x * 10 + 1 / 2 \<and> x * 10 - 1 / 2 < of_int (tenths x)"
proof -
  have "of_int \<lfloor>x * 10 + 1 / 2\<rfloor> \<le> x * 10 + 1 / 2" by (rule of_int_floor_le)
  moreover have "x * 10 + 1 / 2 < of_int \<lfloor>x * 10 + 1 / 2\<rfloor> + 1" by linarith
  ultimately show ?thesis by (simp add: tenths_def)
qed

lemma round1_bounds:
  assumes "0 \<le> x"
  shows "round1 x \<le> x + 1 / 20" and "x - 1 / 20 < round1 x" and "0 \<le> round1 x"
proof -
  have r: "round1 x = of_int (tenths x) / 10" using assms by (simp add: round1_def)
  from tenths_bounds [of x] show "round1 x \<le> x + 1 / 20" "x - 1 / 20 < round1 x"
    unfolding r by (simp_all add: field_simps)
  have "0 \<le> tenths x" using assms by (simp add: tenths_def)
  then show "0 \<le> round1 x" unfolding r by simp
qed

lemma round1_mono:
  assumes "0 \<le> x" "x \<le> y"
  shows "round1 x \<le> round1 y"
proof -
  have "tenths x \<le> tenths y" using assms(2) by (simp add: tenths_def floor_mono)
  then show ?thesis using assms by (simp add: round1_def divide_right_mono)
qed

lemma round1_on_tenths:
  assumes "0 \<le> d" "on_tenths d"
  shows "round1 d = d"
proof -
  define k where "k = \<lfloor>d * 10\<rfloor>"
  have e: "d * 10 = of_int k" using assms(2) unfolding on_tenths_def k_def by (rule sym)
  have "\<lfloor>(of_int k :: rat) + 1 / 2\<rfloor> = k" by linarith
  then have "tenths d = k" by (simp add: tenths_def e)
  then have "round1 d = of_int k / 10" using assms(1) by (simp add: round1_def)
  also have "\<dots> = d" using e by simp
  finally show ?thesis .
qed

lemma start_clamp:
  assumes "0 < y"
  shows "0 \<le> round1 (max 0 (y - 1 / 10))" and "round1 (max 0 (y - 1 / 10)) < y"
proof -
  have m: "0 \<le> max 0 (y - 1 / 10)" by simp
  show "0 \<le> round1 (max 0 (y - 1 / 10))" by (rule round1_bounds(3) [OF m])
  show "round1 (max 0 (y - 1 / 10)) < y"
  proof (cases "1 / 10 \<le> y")
    case True
    then have "max 0 (y - 1 / 10) = y - 1 / 10" by simp
    with round1_bounds(1) [OF m] show ?thesis by simp
  next
    case False
    then have "max 0 (y - 1 / 10) = 0" by simp
    moreover have "round1 0 = 0" by (simp add: round1_def tenths_def floor_eq_iff)
    ultimately show ?thesis using assms by simp
  qed
qed

lemma end_clamp:
  assumes "on_tenths d" "0 \<le> x" "x < d"
  shows "x < round1 (min d (x + 1 / 10))" and "round1 (min d (x + 1 / 10)) \<le> d"
proof -
  have d0: "0 \<le> d" using assms by simp
  have m: "0 \<le> min d (x + 1 / 10)" using assms by simp
  have "round1 (min d (x + 1 / 10)) \<le> round1 d" by (rule round1_mono [OF m]) simp
  then show "round1 (min d (x + 1 / 10)) \<le> d" by (simp add: round1_on_tenths [OF d0 assms(1)])
  show "x < round1 (min d (x + 1 / 10))"
  proof (cases "x + 1 / 10 \<le> d")
    case True
    then have "min d (x + 1 / 10) = x + 1 / 10" by simp
    with round1_bounds(2) [OF m] show ?thesis by simp
  next
    case False
    then have "min d (x + 1 / 10) = d" by simp
    then show ?thesis using assms by (simp add: round1_on_tenths [OF d0 assms(1)])
  qed
qed

lemma trim_step_valid:
  assumes "on_tenths d" "trim_range_valid d s" "trim_event_ok d e"
  shows "trim_range_valid d (trim_step s e)"
proof -
  from assms(2) obtain x y where
    s: "video_duration s = Some d" "trimEndMax s = Some d" "trimStart s = Some x" "trimEnd s = Some y"
    and r: "0 \<le> x" "x < y" "y \<le> d"
    by (auto simp: trim_range_valid_def split: option.splits)
  have y0: "0 < y" and xd: "x < d" using r by simp_all
  show ?thesis
  proof (cases e)
    case (StartSlider v)
    with assms(3) obtain a where a: "v = Some a" "0 \<le> a" "a \<le> d"
      by (auto simp: trim_event_ok_def in_slider_range_def split: option.splits)
    show ?thesis
      using StartSlider a s r start_clamp [OF y0]
      by (simp add: trim_range_valid_def trimStartSlider_oninput_def js_ge_def js_le_def
          js_max_def js_sub_def toFixed1_def)
  next
    case (EndSlider v)
    with assms(3) obtain a where a: "v = Some a" "0 \<le> a" "a \<le> d"
      by (auto simp: trim_event_ok_def in_slider_range_def split: option.splits)
    show ?thesis
      using EndSlider a s r end_clamp [OF assms(1) r(1) xd]
      by (simp add: trim_range_valid_def trimEndSlider_oninput_def js_le_def
          js_min_def js_add_def toFixed1_def)
  next
    case (StartInput v)
    with assms(3) obtain a where a: "v = Some a" by (auto simp: trim_event_ok_def)
    show ?thesis
      using StartInput a s r
      by (auto simp: trim_range_valid_def trimStartTimeInput_onchange_def js_ge_def js_le_def
          js_max_def js_min_def js_sub_def Let_def)
  next
    case (EndInput v)
    with assms(3) obtain a where a: "v = Some a" by (auto simp: trim_event_ok_def)
    show ?thesis
      using EndInput a s r
      by (auto simp: trim_range_valid_def trimEndTimeInput_onchange_def js_le_def
          js_max_def js_min_def js_add_def Let_def)
  qed
qed

lemma trim_run_valid:
  "on_tenths d \<Longrightarrow> trim_range_valid d s \<Longrightarrow> \<forall>e \<in> set events. trim_event_ok d e
     \<Longrightarrow> trim_range_valid d (foldl trim_step s events)"
  by (induction events arbitrary: s) (simp_all add: trim_step_valid)

lemma trim_range_valid_lt:
  "trim_range_valid d s \<Longrightarrow> js_lt (trimStart s) (trimEnd s)"
  by (auto simp: trim_range_valid_def js_lt_def split: option.splits)

lemma editButton_onclick_valid:
  assumes "0 < d" "video_duration s = Some d" "editButton_onclick eng s = Normal s'"
  shows "trim_range_valid d s'"
  using assms
  by (auto simp: editButton_onclick_def loadFFmpeg_def trim_range_valid_def Let_def
      split: option.splits completion.splits)

text \<open>
  C5, as amended. Let the duration \<open>d\<close> of the video be a whole number of tenths of a
  second. From a range with \<open>0 \<le> start < end \<le> d\<close>, every sequence of mutations (slider
  inputs with values in the slider's range, numeric inputs that parse to a number) leaves
  \<open>0 \<le> start < end \<le> d\<close>, in particular \<open>start < end\<close>; since this holds for every
  sequence, it holds after each mutation. Opening the editor on a video of positive
  duration \<open>d\<close> establishes such a range.
\<close>

theorem trim_range_stays_valid:
  assumes "on_tenths d" and "\<forall>e \<in> set events. trim_event_ok d e"
  shows "(trim_range_valid d s \<longrightarrow>
            trim_range_valid d (foldl trim_step s events)
            \<and> js_lt (trimStart (foldl trim_step s events)) (trimEnd (foldl trim_step s events)))
         \<and> (0 < d \<and> video_duration s0 = Some d \<and> editButton_onclick eng s0 = Normal s
              \<longrightarrow> trim_range_valid d s)"
  using assms trim_run_valid [of d s events] trim_range_valid_lt editButton_onclick_valid [of d s0 eng s]
  by blast

text \<open>
  The theorem at the ten-second video: the four mutations of \<open>demo_trim_events\<close>, each
  clamped by its handler, end with the range from 9.9 to 10.
\<close>

theorem trim_range_stays_valid_witness:
  "on_tenths 10
   \<and> list_all (trim_event_ok 10) demo_trim_events
   \<and> trim_range_valid 10 (demo_open ten_frames)
   \<and> video_duration (demo_loaded ten_frames) = Some 10
   \<and> editButton_onclick demo_engine (demo_loaded ten_frames) = Normal (demo_open ten_frames)
   \<and> trim_range_valid 10 (foldl trim_step (demo_open ten_frames) demo_trim_events)
   \<and> js_lt (trimStart (foldl trim_step (demo_open ten_frames) demo_trim_events))
            (trimEnd (foldl trim_step (demo_open ten_frames) demo_trim_events))
   \<and> trimStart (foldl trim_step (demo_open ten_frames) demo_trim_events) = Some (99 / 10)
   \<and> trimEnd (foldl trim_step (demo_open ten_frames) demo_trim_events) = Some 10"
proof -
  have c: "on_tenths 10" "list_all (trim_event_ok 10) demo_trim_events"
    "video_duration (demo_loaded ten_frames) = Some 10"
    "editButton_onclick demo_engine (demo_loaded ten_frames) = Normal (demo_open ten_frames)"
    "trimStart (foldl trim_step (demo_open ten_frames) demo_trim_events) = Some (99 / 10)"
    "trimEnd (foldl trim_step (demo_open ten_frames) demo_trim_events) = Some 10"
    by code_simp+
  have b: "\<forall>e \<in> set demo_trim_events. trim_event_ok 10 e"
    using c(2) by (simp add: list_all_iff)
  from trim_range_stays_valid [OF c(1) b, of "demo_open ten_frames" "demo_loaded ten_frames" demo_engine] c
  show ?thesis by simp
qed

text \<open>
  C5 as stated fails. On a video of duration 0 the editor opens with the range from 0 to
  0 and each of the four handlers leaves start equal to end. On the ten-second video with
  the end bound at 0 beforehand, the start slider's handler clamps the start to 0, equal
  to the end. On a video of duration 10.04, opened with the range from 0 to 10.04, the
  start slider moved to 10 gives the range from 10 to 10.04, and the end slider then moved
  to 10 is clamped to 10.04 and written with one decimal, 10.0: start equals end.
\<close>

theorem trim_range_left_empty_counterexample:
  "video_duration (demo_open_at 0) = Some 0
   \<and> \<not> js_lt (trimStart (trim_step (demo_open_at 0) (StartSlider (Some 0))))
              (trimEnd (trim_step (demo_open_at 0) (StartSlider (Some 0))))
   \<and> \<not> js_lt (trimStart (trim_step (demo_open_at 0) (EndSlider (Some 0))))
              (trimEnd (trim_step (demo_open_at 0) (EndSlider (Some 0))))
   \<and> \<not> js_lt (trimStart (trim_step (demo_open_at 0) (StartInput (Some 0))))
              (trimEnd (trim_step (demo_open_at 0) (StartInput (Some 0))))
   \<and> \<not> js_lt (trimStart (trim_step (demo_open_at 0) (EndInput (Some 0))))
              (trimEnd (trim_step (demo_open_at 0) (EndInput (Some 0))))
   \<and> trimStart (trim_step ((demo_open ten_frames)\<lparr>trimEnd := Some 0\<rparr>) (StartSlider (Some 0))) = Some 0
   \<and> trimEnd (trim_step ((demo_open ten_frames)\<lparr>trimEnd := Some 0\<rparr>) (StartSlider (Some 0))) = Some 0
   \<and> video_duration (demo_open_at (251 / 25)) = Some (251 / 25)
   \<and> trimStart (demo_open_at (251 / 25)) = Some 0
   \<and> trimEnd (demo_open_at (251 / 25)) = Some (251 / 25)
   \<and> trimStart (foldl trim_step (demo_open_at (251 / 25)) [StartSlider (Some 10)]) = Some 10
   \<and> trimEnd (foldl trim_step (demo_open_at (251 / 25)) [StartSlider (Some 10)]) = Some (251 / 25)
   \<and> trimStart (foldl trim_step (demo_open_at (251 / 25)) [StartSlider (Some 10), EndSlider (Some 10)]) = Some 10
   \<and> trimEnd (foldl trim_step (demo_open_at (251 / 25)) [StartSlider (Some 10), EndSlider (Some 10)]) = Some 10
   \<and> \<not> js_lt (trimStart (foldl trim_step (demo_open_at (251 / 25)) [StartSlider (Some 10), EndSlider (Some 10)]))
              (trimEnd (foldl trim_step (demo_open_at (251 / 25)) [StartSlider (Some 10), EndSlider (Some 10)]))"
  by code_simp

subsection \<open>C8: a tool name that is not in the table\<close>

lemma agent_loop_done:
  "functionCalls response = [] \<Longrightarrow>
     agent_loop invoke send stringify response st = Some (Normal (response, st))"
  by (subst agent_loop.simps) simp

lemma agent_loop_step:
  assumes "functionCalls response = (name, args) # others" "tools_get name = Some m"
    "call_member invoke m name args (session st) = (Inl v, sess)"
    "send (chat st) (FunctionResponse name v) = Inr (c, response')"
  shows "agent_loop invoke send stringify response st
         = agent_loop invoke send stringify response'
             (st\<lparr>session := sess,
                 chatWindow := chatWindow st
                   @ [(Tool, robot @ '' Tool call: '' @ name @ ''('' @ stringify args @ '')'')],
                 roundTrips := Suc (roundTrips st), chat := c\<rparr>)"
  using assms by (subst agent_loop.simps) (simp add: Let_def addMessage_def)

text \<open>
  When \<^verbatim>\<open>tools[name]\<close> is undefined the loop ends at once: it shows the error message
  and sends nothing more to the model.
\<close>

lemma agent_loop_unknown_name:
  assumes "functionCalls response = (name, args) # others" "tools_get name = None"
  shows "agent_loop invoke send stringify response st
         = Some (Normal (response,
             addMessage (''Error: Unknown tool '' @ [CHR 0x22] @ name @ [CHR 0x22]) Agent st))"
  using assms by (subst agent_loop.simps) simp

lemma send_toString:
  "sendMessage demo_invoke (demo_send ''toString'') (\<lambda>a. ''{}'') ''hello'' demo_agent
   = Some \<lparr>session = (), chat = 2,
           chatWindow = [(User, ''hello''), (Tool, robot @ '' Tool call: toString({})''), (Agent, ''Done.'')],
           roundTrips = 2, agentSendButton_disabled = False\<rparr>"
proof -
  have t: "trim ''hello'' = ''hello''" by code_simp
  have g: "tools_get ''toString'' = Some Inherited" by code_simp
  have cm: "call_member demo_invoke Inherited ''toString'' (Some ()) () = (Inl (Str ''[object Undefined]''), ())"
    by code_simp
  have l: "agent_loop demo_invoke (demo_send ''toString'') (\<lambda>a. ''{}'')
             \<lparr>functionCalls = [(''toString'', Some ())], response_text = []\<rparr>
             \<lparr>session = (), chat = Suc 0, chatWindow = [(User, ''hello'')], roundTrips = Suc 0,
               agentSendButton_disabled = True\<rparr>
           = Some (Normal (\<lparr>functionCalls = [], response_text = ''Done.''\<rparr>,
               \<lparr>session = (), chat = Suc (Suc 0),
                 chatWindow = [(User, ''hello''), (Tool, robot @ '' Tool call: toString({})'')],
                 roundTrips = Suc (Suc 0), agentSendButton_disabled = True\<rparr>))"
    apply (subst agent_loop_step [where m = Inherited and v = "Str ''[object Undefined]''" and sess = "()"
          and c = "Suc (Suc 0)" and response' = "\<lparr>functionCalls = [], response_text = ''Done.''\<rparr>"
          and name = "''toString''" and args = "Some ()" and others = "[]"])
        apply simp
       apply (rule g)
      apply (simp add: cm)
     apply (simp add: demo_send_def)
    apply (subst agent_loop_done)
     apply simp
    apply simp
    done
  show ?thesis
    by (simp add: sendMessage_def t demo_send_def demo_agent_def addMessage_def l Let_def numeral_2_eq_2)
qed

lemma send_flyToMoon:
  "sendMessage demo_invoke (demo_send ''flyToMoon'') (\<lambda>a. ''{}'') ''hello'' demo_agent
   = Some \<lparr>session = (), chat = 1,
           chatWindow = [(User, ''hello''),
                         (Agent, ''Error: Unknown tool '' @ [CHR 0x22] @ ''flyToMoon'' @ [CHR 0x22]),
                         (Agent, [])],
           roundTrips = 1, agentSendButton_disabled = False\<rparr>"
proof -
  have t: "trim ''hello'' = ''hello''" by code_simp
  have g: "tools_get ''flyToMoon'' = None" by code_simp
  have l: "agent_loop demo_invoke (demo_send ''flyToMoon'') (\<lambda>a. ''{}'')
             \<lparr>functionCalls = [(''flyToMoon'', Some ())], response_text = []\<rparr>
             \<lparr>session = (), chat = Suc 0, chatWindow = [(User, ''hello'')], roundTrips = Suc 0,
               agentSendButton_disabled = True\<rparr>
           = Some (Normal (\<lparr>functionCalls = [(''flyToMoon'', Some ())], response_text = []\<rparr>,
               \<lparr>session = (), chat = Suc 0,
                 chatWindow = [(User, ''hello''),
                               (Agent, ''Error: Unknown tool '' @ [CHR 0x22] @ ''flyToMoon'' @ [CHR 0x22])],
                 roundTrips = Suc 0, agentSendButton_disabled = True\<rparr>))"
    apply (subst agent_loop_unknown_name [where name = "''flyToMoon''" and args = "Some ()" and others = "[]"])
      apply simp
     apply (rule g)
    apply (simp add: addMessage_def)
    done
  show ?thesis
    by (simp add: sendMessage_def t demo_send_def demo_agent_def addMessage_def l Let_def)
qed

text \<open>
  C8 on the code. The name \<^verbatim>\<open>toString\<close> is not an entry of the table, yet
  \<^verbatim>\<open>tools["toString"]\<close> is the function every object inherits: the loop calls it,
  shows a tool call, sends its result to the model in a second round trip and shows no
  error. For comparison, the name \<^verbatim>\<open>flyToMoon\<close> ends the loop after the first round
  trip with the message \<^verbatim>\<open>Error: Unknown tool "flyToMoon"\<close>.
\<close>

theorem inherited_name_continues_the_loop:
  "''toString'' \<notin> set tool_names
   \<and> sendMessage demo_invoke (demo_send ''toString'') (\<lambda>a. ''{}'') ''hello'' demo_agent
       = Some \<lparr>session = (), chat = 2,
               chatWindow = [(User, ''hello''), (Tool, robot @ '' Tool call: toString({})''),
                             (Agent, ''Done.'')],
               roundTrips = 2, agentSendButton_disabled = False\<rparr>
   \<and> ''flyToMoon'' \<notin> set tool_names
   \<and> sendMessage demo_invoke (demo_send ''flyToMoon'') (\<lambda>a. ''{}'') ''hello'' demo_agent
       = Some \<lparr>session = (), chat = 1,
               chatWindow = [(User, ''hello''),
                             (Agent, ''Error: Unknown tool '' @ [CHR 0x22] @ ''flyToMoon'' @ [CHR 0x22]),
                             (Agent, [])],
               roundTrips = 1, agentSendButton_disabled = False\<rparr>"
proof -
  have "''toString'' \<notin> set tool_names" "''flyToMoon'' \<notin> set tool_names" by code_simp+
  then show ?thesis using send_toString send_flyToMoon by simp
qed

end
